theory Spec2Isabelle
  imports Main "HOL-Library.AList" "HOL-Library.Word"
begin

section \<open>Asynchronous operations and their outcomes\<close>

text \<open>
  Every operation of the engine is an \<^verbatim>\<open>async\<close> function. It either returns a value,
  rejects with an error (an awaited promise rejected outside any \<^verbatim>\<open>try\<close>), or ends the
  whole process through \<^verbatim>\<open>process.exit(-1)\<close>. A call to a node is a value of
  \<open>js_error + 'a\<close>: \<open>Inl\<close> is the rejected promise.
\<close>

datatype js_error = RpcFailure string | TypeError | InvalidArgument | Overflow

datatype 'a outcome = Returned 'a | Rejected js_error | ProcessExit

fun bindO :: "'a outcome \<Rightarrow> ('a \<Rightarrow> 'b outcome) \<Rightarrow> 'b outcome" where
  "bindO (Returned a) f = f a"
| "bindO (Rejected e) f = Rejected e"
| "bindO ProcessExit f = ProcessExit"

text \<open>\<^verbatim>\<open>await promise\<close> outside a \<^verbatim>\<open>try\<close>: a rejection rejects the calling operation.\<close>

fun await :: "js_error + 'a \<Rightarrow> 'a outcome" where
  "await (Inl e) = Rejected e"
| "await (Inr v) = Returned v"

text \<open>
  \<^verbatim>\<open>Promise.all\<close>: the values in the order the promises were issued, or a rejection as
  soon as one of them rejects.
\<close>

fun awaitAll :: "(js_error + 'a) list \<Rightarrow> js_error + 'a list" where
  "awaitAll [] = Inr []"
| "awaitAll (Inl e # ps) = Inl e"
| "awaitAll (Inr v # ps) = (case awaitAll ps of Inl e \<Rightarrow> Inl e | Inr vs \<Rightarrow> Inr (v # vs))"

text \<open>A block argument is a number or a string (\<^verbatim>\<open>string | number\<close>).\<close>

datatype blocktag = Num int | Tag string

section \<open>Strings\<close>

text \<open>
  \<^verbatim>\<open>toUpperCase\<close> and \<^verbatim>\<open>toLowerCase\<close> on the characters an address is written with
  (ASCII); every other character is left as it is.
\<close>

definition upper_char :: "char \<Rightarrow> char" where
  "upper_char c =
     (case map_of (zip ''abcdefghijklmnopqrstuvwxyz'' ''ABCDEFGHIJKLMNOPQRSTUVWXYZ'') c of
        None \<Rightarrow> c | Some u \<Rightarrow> u)"

definition lower_char :: "char \<Rightarrow> char" where
  "lower_char c =
     (case map_of (zip ''ABCDEFGHIJKLMNOPQRSTUVWXYZ'' ''abcdefghijklmnopqrstuvwxyz'') c of
        None \<Rightarrow> c | Some l \<Rightarrow> l)"

definition toUpperCase :: "string \<Rightarrow> string" where
  "toUpperCase s = map upper_char s"

definition toLowerCase :: "string \<Rightarrow> string" where
  "toLowerCase s = map lower_char s"

text \<open>
  \<^verbatim>\<open>key.match(/0x0{64}/)\<close>: the pattern is not anchored, so it matches when the text
  \<^verbatim>\<open>0x\<close> followed by 64 zeros occurs anywhere in the key.
\<close>

definition zero_key_pattern :: string where
  "zero_key_pattern = ''0x'' @ replicate 64 (CHR ''0'')"

fun occurs_in :: "string \<Rightarrow> string \<Rightarrow> bool" where
  "occurs_in pat [] = (pat = [])"
| "occurs_in pat (c # cs) = (take (length pat) (c # cs) = pat \<or> occurs_in pat cs)"

definition matches_zero_key :: "string \<Rightarrow> bool" where
  "matches_zero_key k = occurs_in zero_key_pattern k"

section \<open>TransactionHandler\<close>

subsection \<open>The node as the handler sees it\<close>

record block =
  transactions :: "string list"

record transactionResponse =
  tx_hash :: string
  tx_to :: "string option"

record transactionReceipt =
  transactionHash :: string
  contractAddress :: "string option"

text \<open>
  \<^verbatim>\<open>KeyObject\<close>: \<open>modified_to\<close> is the \<^verbatim>\<open>to\<close> of the entry \<^verbatim>\<open>'*'\<close>, \<open>created\<close> the
  entry \<^verbatim>\<open>'+'\<close>; \<open>None\<close> is \<^verbatim>\<open>undefined\<close>.
\<close>

record keyObject =
  modified_to :: "string option"
  created :: "string option"

text \<open>
  \<^verbatim>\<open>ParityResponseData\<close>: \<^verbatim>\<open>stateDiff\<close> maps a contract address to its \<^verbatim>\<open>storage\<close>
  object, which maps a key to its \<^verbatim>\<open>KeyObject\<close>. Objects are association lists, in
  the order of their entries.
\<close>

type_synonym storage_diff = "(string \<times> keyObject) list"
type_synonym parityResponseData = "(string \<times> storage_diff) list"

text \<open>
  The provider's answers. \<^verbatim>\<open>toBlockNumber\<close> and \<^verbatim>\<open>findDeploymentBlock\<close> are imported
  from \<^verbatim>\<open>./utils\<close> and ask the provider too; they are taken as given.
\<close>

record provider =
  getBlock :: "int \<Rightarrow> js_error + block option"
  getTransaction :: "string \<Rightarrow> js_error + transactionResponse"
  getTransactionReceipt :: "string \<Rightarrow> js_error + transactionReceipt"
  trace_replayTransaction :: "string \<Rightarrow> js_error + parityResponseData"
  toBlockNumber :: "string \<Rightarrow> js_error + int"
  findDeploymentBlock :: "string \<Rightarrow> js_error + int"

subsection \<open>replayTransaction\<close>

text \<open>
  The body of \<^verbatim>\<open>keys.forEach\<close>: \<^verbatim>\<open>obj[key] = ...\<close> is \<open>AList.update\<close> (an existing
  key keeps its place, a new one goes last).
\<close>

definition replay_key :: "(string \<times> string) list \<Rightarrow> string \<times> keyObject \<Rightarrow> (string \<times> string) list" where
  "replay_key obj entry =
     (case modified_to (snd entry) of
        Some v \<Rightarrow> AList.update (fst entry) v obj
      | None \<Rightarrow>
          (case created (snd entry) of
             Some v \<Rightarrow> AList.update (fst entry) v obj
           | None \<Rightarrow> obj))"

text \<open>
  \<^verbatim>\<open>replayTransaction\<close>: the \<^verbatim>\<open>try\<close> block catches a failed \<^verbatim>\<open>trace_replayTransaction\<close>,
  logs it and falls through to \<^verbatim>\<open>return undefined\<close> (\<open>None\<close>).
\<close>

definition replayTransaction :: "provider \<Rightarrow> string \<Rightarrow> string \<Rightarrow> (string \<times> string) list option" where
  "replayTransaction p address tx =
     (case trace_replayTransaction p tx of
        Inl err \<Rightarrow> None
      | Inr stateDiff \<Rightarrow>
          (case map_of stateDiff (toLowerCase address) of
             None \<Rightarrow> None
           | Some txStorage \<Rightarrow> Some (foldl replay_key [] txStorage)))"

subsection \<open>getTransactions\<close>

text \<open>
  The block loop. \<open>blockPromises\<close> holds the answers of the calls issued and not yet
  awaited. A full batch gets the \<^verbatim>\<open>catch\<close> handlers that end the process, then is
  awaited and emptied.
\<close>

function block_loop ::
  "provider \<Rightarrow> int \<Rightarrow> int \<Rightarrow> int \<Rightarrow> (js_error + block option) list \<Rightarrow> block option list
   \<Rightarrow> ((js_error + block option) list \<times> block option list) outcome" where
  "block_loop p batch i latest blockPromises blocks =
     (if i \<le> latest then
        (let blockPromises' = blockPromises @ [getBlock p i] in
         if int (length blockPromises') \<ge> batch then
           (case awaitAll blockPromises' of
              Inl err \<Rightarrow> ProcessExit
            | Inr bs \<Rightarrow> block_loop p batch (i + 1) latest [] (blocks @ bs))
         else block_loop p batch (i + 1) latest blockPromises' blocks)
      else Returned (blockPromises, blocks))"
  by pat_completeness auto
termination
  by (relation "measure (\<lambda>(p, batch, i, latest, bp, bs). nat (latest + 1 - i))") auto

declare block_loop.simps [simp del]

text \<open>
  The transaction loop pops hashes from the end. Each promise gets its \<^verbatim>\<open>catch\<close>
  handler when it is issued, so a rejection ends the process at whichever await comes
  next, the one after the loop too.
\<close>

function transaction_loop ::
  "provider \<Rightarrow> int \<Rightarrow> string list \<Rightarrow> (js_error + transactionResponse) list \<Rightarrow> transactionResponse list
   \<Rightarrow> ((js_error + transactionResponse) list \<times> transactionResponse list) outcome" where
  "transaction_loop p batch transactionHashes transactionPromises txs =
     (if transactionHashes \<noteq> [] then
        (let currTx = last transactionHashes; rest = butlast transactionHashes in
         if currTx \<noteq> [] then
           (let transactionPromises' = transactionPromises @ [getTransaction p currTx] in
            if int (length transactionPromises') \<ge> batch then
              (case awaitAll transactionPromises' of
                 Inl err \<Rightarrow> ProcessExit
               | Inr ts \<Rightarrow> transaction_loop p batch rest [] (txs @ ts))
            else transaction_loop p batch rest transactionPromises' txs)
         else transaction_loop p batch rest transactionPromises txs)
      else Returned (transactionPromises, txs))"
  by pat_completeness auto
termination
  by (relation "measure (\<lambda>(p, batch, hs, tp, ts). length hs)") auto

declare transaction_loop.simps [simp del]

text \<open>
  The receipt loop: as the block loop, the handlers that end the process are attached
  to a full batch only.
\<close>

function receipt_loop ::
  "provider \<Rightarrow> int \<Rightarrow> string list \<Rightarrow> (js_error + transactionReceipt) list \<Rightarrow> transactionReceipt list
   \<Rightarrow> ((js_error + transactionReceipt) list \<times> transactionReceipt list) outcome" where
  "receipt_loop p batch receiptHashes receiptPromises receipts =
     (if receiptHashes \<noteq> [] then
        (let currReceiptHash = last receiptHashes; rest = butlast receiptHashes in
         if currReceiptHash \<noteq> [] then
           (let receiptPromises' = receiptPromises @ [getTransactionReceipt p currReceiptHash] in
            if int (length receiptPromises') \<ge> batch then
              (case awaitAll receiptPromises' of
                 Inl err \<Rightarrow> ProcessExit
               | Inr rs \<Rightarrow> receipt_loop p batch rest [] (receipts @ rs))
            else receipt_loop p batch rest receiptPromises' receipts)
         else receipt_loop p batch rest receiptPromises receipts)
      else Returned (receiptPromises, receipts))"
  by pat_completeness auto
termination
  by (relation "measure (\<lambda>(p, batch, hs, rp, rs). length hs)") auto

declare receipt_loop.simps [simp del]

text \<open>
  \<^verbatim>\<open>transactions.forEach\<close>: a transaction with a \<^verbatim>\<open>to\<close> is related when \<^verbatim>\<open>to\<close> is the
  contract; one without (a deployment) has its receipt fetched. The pair is
  (\<open>relatedTransactions\<close>, \<open>receiptHashes\<close>).
\<close>

definition sort_transaction ::
  "string \<Rightarrow> string list \<times> string list \<Rightarrow> transactionResponse \<Rightarrow> string list \<times> string list" where
  "sort_transaction contractAddressUpper acc tx =
     (case tx_to tx of
        None \<Rightarrow> (fst acc, snd acc @ [tx_hash tx])
      | Some t \<Rightarrow>
          (if t \<noteq> [] then
             (if toUpperCase t = contractAddressUpper then (fst acc @ [tx_hash tx], snd acc) else acc)
           else (fst acc, snd acc @ [tx_hash tx])))"

definition related_receipt :: "string \<Rightarrow> string list \<Rightarrow> transactionReceipt \<Rightarrow> string list" where
  "related_receipt contractAddressUpper relatedTransactions receipt =
     (case contractAddress receipt of
        None \<Rightarrow> relatedTransactions
      | Some a \<Rightarrow>
          (if a \<noteq> [] \<and> toUpperCase a = contractAddressUpper
           then relatedTransactions @ [transactionHash receipt]
           else relatedTransactions))"

text \<open>The two block numbers of the range, as lines 106 to 111 resolve them.\<close>

definition resolve_latest :: "provider \<Rightarrow> blocktag \<Rightarrow> int outcome" where
  "resolve_latest p latest_block_number =
     (case latest_block_number of
        Num n \<Rightarrow> Returned n
      | Tag s \<Rightarrow> await (toBlockNumber p s))"

definition resolve_earliest :: "provider \<Rightarrow> string \<Rightarrow> blocktag option \<Rightarrow> int outcome" where
  "resolve_earliest p address earliest_block_number =
     (case earliest_block_number of
        None \<Rightarrow> await (findDeploymentBlock p address)
      | Some (Num n) \<Rightarrow> (if n \<noteq> 0 then Returned n else await (findDeploymentBlock p address))
      | Some (Tag s) \<Rightarrow>
          (if s \<noteq> [] \<and> s \<noteq> ''earliest'' then await (toBlockNumber p s)
           else await (findDeploymentBlock p address)))"

text \<open>
  The three stages of \<^verbatim>\<open>getTransactions\<close>: each runs its loop and awaits what the loop
  left in its array. The promises of a last, partial batch of blocks or receipts have no
  \<^verbatim>\<open>catch\<close> handler, so a rejection there rejects the operation; the null blocks are
  filtered out at the end of the first stage.
\<close>

definition fetch_blocks :: "provider \<Rightarrow> int \<Rightarrow> int \<Rightarrow> int \<Rightarrow> block list outcome" where
  "fetch_blocks p batch earliest latest =
     bindO (block_loop p batch earliest latest [] []) (\<lambda>(blockPromises, blocks).
     bindO (await (awaitAll blockPromises)) (\<lambda>lastBlocks.
     Returned (List.map_filter id (blocks @ lastBlocks))))"

definition fetch_transactions :: "provider \<Rightarrow> int \<Rightarrow> string list \<Rightarrow> transactionResponse list outcome" where
  "fetch_transactions p batch transactionHashes =
     bindO (transaction_loop p batch transactionHashes [] []) (\<lambda>(transactionPromises, txs).
     (case awaitAll transactionPromises of
        Inl err \<Rightarrow> ProcessExit
      | Inr lastTxs \<Rightarrow> Returned (txs @ lastTxs)))"

definition fetch_receipts :: "provider \<Rightarrow> int \<Rightarrow> string list \<Rightarrow> transactionReceipt list outcome" where
  "fetch_receipts p batch receiptHashes =
     bindO (receipt_loop p batch receiptHashes [] []) (\<lambda>(receiptPromises, receipts).
     bindO (await (awaitAll receiptPromises)) (\<lambda>lastReceipts.
     Returned (receipts @ lastReceipts)))"

text \<open>The body of \<^verbatim>\<open>getTransactions\<close> once both block numbers are known.\<close>

definition gather_transactions :: "provider \<Rightarrow> string \<Rightarrow> int \<Rightarrow> int \<Rightarrow> int \<Rightarrow> string list outcome" where
  "gather_transactions p address batch latest earliest =
     (if latest < earliest then Returned []
      else
        bindO (fetch_blocks p batch earliest latest) (\<lambda>blocks.
        bindO (fetch_transactions p batch (concat (map transactions blocks))) (\<lambda>txs.
        let sorted = foldl (sort_transaction (toUpperCase address)) ([], []) txs in
        bindO (fetch_receipts p batch (snd sorted)) (\<lambda>receipts.
        Returned (foldl (related_receipt (toUpperCase address)) (fst sorted) receipts)))))"

definition getTransactions ::
  "provider \<Rightarrow> string \<Rightarrow> int \<Rightarrow> blocktag \<Rightarrow> blocktag option \<Rightarrow> string list outcome" where
  "getTransactions p address batch latest_block_number earliest_block_number =
     bindO (resolve_latest p latest_block_number) (\<lambda>latest.
     bindO (resolve_earliest p address earliest_block_number) (\<lambda>earliest.
     gather_transactions p address batch latest earliest))"

subsection \<open>getContractStorageFromTxs\<close>

text \<open>
  The replay loop pops transactions from the end and pushes their replays onto
  \<open>txStoragePromises\<close>. Once that array holds \<open>batch\<close> promises, all of it is awaited
  and appended to \<open>txStorages\<close>. The array is not emptied afterwards, and nothing is
  awaited after the loop. \<^verbatim>\<open>replayTransaction\<close> never rejects, so the await cannot fail.
\<close>

function replay_loop ::
  "provider \<Rightarrow> string \<Rightarrow> int \<Rightarrow> string list \<Rightarrow> (string \<times> string) list option list
   \<Rightarrow> (string \<times> string) list option list \<Rightarrow> (string \<times> string) list option list" where
  "replay_loop p address batch txs txStoragePromises txStorages =
     (if txs \<noteq> [] then
        (let currTx = last txs; rest = butlast txs in
         if currTx \<noteq> [] then
           (let txStoragePromises' = txStoragePromises @ [replayTransaction p address currTx] in
            if int (length txStoragePromises') \<ge> batch then
              replay_loop p address batch rest txStoragePromises' (txStorages @ txStoragePromises')
            else replay_loop p address batch rest txStoragePromises' txStorages)
         else replay_loop p address batch rest txStoragePromises txStorages)
      else txStorages)"
  by pat_completeness auto
termination
  by (relation "measure (\<lambda>(p, address, batch, txs, tp, ts). length txs)") auto

declare replay_loop.simps [simp del]

text \<open>
  \<^verbatim>\<open>txStorages.forEach\<close>: an \<^verbatim>\<open>undefined\<close> storage is skipped; of the others every entry
  whose key does not match \<^verbatim>\<open>/0x0{64}/\<close> is written to \<open>contractStorage\<close>.
\<close>

definition store_entry :: "(string \<times> string) list \<Rightarrow> string \<times> string \<Rightarrow> (string \<times> string) list" where
  "store_entry contractStorage entry =
     (if \<not> matches_zero_key (fst entry) then AList.update (fst entry) (snd entry) contractStorage
      else contractStorage)"

definition store_storage ::
  "(string \<times> string) list \<Rightarrow> (string \<times> string) list option \<Rightarrow> (string \<times> string) list" where
  "store_storage contractStorage storage =
     (case storage of
        None \<Rightarrow> contractStorage
      | Some entries \<Rightarrow> foldl store_entry contractStorage entries)"

definition getContractStorageFromTxs ::
  "provider \<Rightarrow> string \<Rightarrow> int \<Rightarrow> blocktag \<Rightarrow> blocktag option \<Rightarrow> (string \<times> string) list outcome" where
  "getContractStorageFromTxs p address batch latestBlockNumber earliest_block_number =
     bindO (getTransactions p address batch latestBlockNumber earliest_block_number) (\<lambda>txs.
     Returned (foldl store_storage [] (replay_loop p address batch txs [] [])))"

section \<open>ChainProxy\<close>

subsection \<open>encodeBlockHeader\<close>

text \<open>
  A block as \<^verbatim>\<open>eth_getBlockByNumber\<close> returns it. \<^verbatim>\<open>mixHash\<close> and \<^verbatim>\<open>nonce\<close> may be
  missing.
\<close>

record blockHeader =
  h_parentHash :: string
  h_sha3Uncles :: string
  h_miner :: string
  h_stateRoot :: string
  h_transactionsRoot :: string
  h_receiptsRoot :: string
  h_logsBloom :: string
  h_difficulty :: string
  h_number :: string
  h_gasLimit :: string
  h_gasUsed :: string
  h_timestamp :: string
  h_extraData :: string
  h_mixHash :: "string option"
  h_nonce :: "string option"

definition truthy_string :: "string option \<Rightarrow> bool" where
  "truthy_string s = (case s of None \<Rightarrow> False | Some t \<Rightarrow> t \<noteq> [])"

text \<open>
  The list handed to \<^verbatim>\<open>rlp.encode\<close>. \<open>toHexString\<close> stands for
  \<^verbatim>\<open>ethers.BigNumber.from(x).toHexString()\<close>, \<open>rlp_encode\<close> for \<^verbatim>\<open>rlp.encode\<close>; both
  belong to libraries and are taken as given.
\<close>

definition cleanBlockHeader :: "(string \<Rightarrow> string) \<Rightarrow> blockHeader \<Rightarrow> string list" where
  "cleanBlockHeader toHexString blockHeader =
     [h_parentHash blockHeader,
      h_sha3Uncles blockHeader,
      h_miner blockHeader,
      h_stateRoot blockHeader,
      h_transactionsRoot blockHeader,
      h_receiptsRoot blockHeader,
      h_logsBloom blockHeader,
      toHexString (h_difficulty blockHeader),
      toHexString (h_number blockHeader),
      toHexString (h_gasLimit blockHeader),
      toHexString (h_gasUsed blockHeader),
      toHexString (h_timestamp blockHeader),
      h_extraData blockHeader]
     @ (if truthy_string (h_mixHash blockHeader) \<and> truthy_string (h_nonce blockHeader)
        then [the (h_mixHash blockHeader), the (h_nonce blockHeader)]
        else [])"

definition encodeBlockHeader ::
  "(string list \<Rightarrow> string) \<Rightarrow> (string \<Rightarrow> string) \<Rightarrow> blockHeader \<Rightarrow> string" where
  "encodeBlockHeader rlp_encode toHexString blockHeader =
     rlp_encode (cleanBlockHeader toHexString blockHeader)"

subsection \<open>The engine and the two chains\<close>

definition KEY_VALUE_PAIR_PER_BATCH :: nat where
  "KEY_VALUE_PAIR_PER_BATCH = 100"

text \<open>
  Numbers. A \<^verbatim>\<open>BigNumber\<close> is an integer of any size; a JavaScript number holds an integer
  exactly up to \<open>2\<^sup>5\<^sup>3\<close>. \<^verbatim>\<open>toNumber()\<close> throws an overflow fault for a value of more
  than 53 bits, and \<^verbatim>\<open>BigNumber.from(n)\<close>, for a number \<open>n\<close>, throws one when \<open>n\<close> is at
  or beyond \<^verbatim>\<open>0x1fffffffffffff\<close> on either side.
\<close>

definition MAX_SAFE :: int where
  "MAX_SAFE = 9007199254740991"

definition toNumber :: "int \<Rightarrow> js_error + int" where
  "toNumber n = (if - MAX_SAFE \<le> n \<and> n \<le> MAX_SAFE then Inr n else Inl Overflow)"

definition bigNumber_of_number :: "int \<Rightarrow> js_error + int" where
  "bigNumber_of_number n = (if n \<ge> MAX_SAFE \<or> n \<le> - MAX_SAFE then Inl Overflow else Inr n)"

text \<open>
  The fields of \<^verbatim>\<open>ChainProxy\<close> that its operations read or write. An attached contract
  is known by its address; \<open>None\<close> is \<^verbatim>\<open>undefined\<close>.
\<close>

record chainProxy =
  initialized :: bool
  migrationState :: bool
  srcContractAddress :: string
  logicContractAddress :: "string option"
  relayContract :: "string option"
  proxyContract :: "string option"
  proxyContractAddress :: "string option"
  batchSize :: int
  srcBlock :: blocktag
  targetBlock :: blocktag

text \<open>\<^verbatim>\<open>GetProof\<close>: the storage proof entries (key, value); the rest is carried along.\<close>

record getProof =
  storageProof :: "(string \<times> string) list"
  proof_payload :: string

record compiledProxy =
  compile_error :: bool
  bytecode :: string

text \<open>\<^verbatim>\<open>StorageDiff\<close>: the list of (key, source value, target value).\<close>

type_synonym storageDiff = "(string \<times> string \<times> string) list"

text \<open>
  What the two nodes, the deployed contracts and the imported helpers answer. The helpers
  of \<^verbatim>\<open>./utils\<close>, \<^verbatim>\<open>GetProof\<close>, \<^verbatim>\<open>ProxyContractBuilder\<close> and \<^verbatim>\<open>DiffHandler\<close> are not
  part of this file's source and are taken as given, as are the functions of
  \<^verbatim>\<open>ethers\<close> and \<^verbatim>\<open>rlp\<close>.
\<close>

record chain =
  isAddress :: "string \<Rightarrow> bool"
  hexZeroPad32 :: "string \<Rightarrow> string"
  rlp_encode :: "string list \<Rightarrow> string"
  toHexString :: "string \<Rightarrow> string"
  bigNumber_from :: "string \<Rightarrow> js_error + int"
  toParityQuantity :: "blocktag \<Rightarrow> string"
  src_toBlockNumber :: "blocktag \<Rightarrow> js_error + int"
  src_getCode :: "string \<Rightarrow> blocktag option \<Rightarrow> js_error + string"
  getAllKeys :: "string \<Rightarrow> string \<Rightarrow> int \<Rightarrow> js_error + string list"
  src_getBlockByNumber :: "string \<Rightarrow> js_error + blockHeader option"
  src_getProof :: "string \<Rightarrow> string list \<Rightarrow> string \<Rightarrow> js_error + getProof"
  optimizedProof :: "getProof \<Rightarrow> string \<Rightarrow> bool \<Rightarrow> js_error + string"
  createDeployingByteCode :: "string \<Rightarrow> js_error + string"
  compiledAbiAndBytecode :: "string \<Rightarrow> string \<Rightarrow> string \<Rightarrow> js_error + compiledProxy"
  relay_deploy :: "js_error + string"
  logic_deploy :: "string \<Rightarrow> js_error + string"
  proxy_deploy :: "string \<Rightarrow> js_error + string"
  deployment_wait :: "string \<Rightarrow> js_error + int"
  relay_addBlock :: "string \<Rightarrow> string \<Rightarrow> string \<Rightarrow> js_error + unit"
  proxy_addStorage :: "string \<Rightarrow> string list \<Rightarrow> string list \<Rightarrow> js_error + string option"
  tx_wait :: "string \<Rightarrow> js_error + int"
  target_getBlockByNumber :: "string \<Rightarrow> js_error + blockHeader option"
  target_getProof :: "string \<Rightarrow> js_error + getProof"
  relay_verifyMigrateContract ::
    "string \<Rightarrow> string \<Rightarrow> string \<Rightarrow> string \<Rightarrow> string \<Rightarrow> int \<Rightarrow> string \<Rightarrow> js_error + string"
  relay_getMigrationState :: "string \<Rightarrow> string \<Rightarrow> js_error + bool"
  relay_getCurrentBlockNumber :: "string \<Rightarrow> string \<Rightarrow> js_error + int"
  relay_getLatestBlockNumber :: "string \<Rightarrow> js_error + int"
  proxy_updateStorage :: "string \<Rightarrow> string \<Rightarrow> string \<Rightarrow> js_error + string"
  getDiffFromStorage ::
    "string \<Rightarrow> string \<Rightarrow> blocktag option \<Rightarrow> blocktag option \<Rightarrow> js_error + storageDiff"
  getDiffFromProof :: "string \<Rightarrow> blocktag option \<Rightarrow> blocktag option \<Rightarrow> js_error + storageDiff"
  getDiffFromSrcContractTxs ::
    "string \<Rightarrow> blocktag option \<Rightarrow> blocktag option \<Rightarrow> js_error + storageDiff"

text \<open>
  The calls an operation sends to a node or to a contract, in the order it issues them.
  \<open>Awaited n\<close> marks a \<^verbatim>\<open>Promise.all\<close> over \<open>n\<close> pending \<^verbatim>\<open>addStorage\<close> calls.
\<close>

datatype rpc_call =
    Src_getCode string "blocktag option"
  | Src_toBlockNumber blocktag
  | Src_listStorageKeys string string
  | Src_getBlockByNumber string
  | Src_getProof string "string list" string
  | Src_getCodeForClone string
  | Relay_deploy
  | Logic_deploy string
  | Proxy_deploy string
  | Deployment_wait string
  | Relay_addBlock string string
  | Proxy_addStorage "string list" "string list"
  | Awaited nat
  | Tx_wait string
  | Target_getBlockByNumber string
  | Target_getProof string
  | Relay_verifyMigrateContract string string
  | Relay_getMigrationState string
  | Relay_getCurrentBlockNumber string
  | Relay_getLatestBlockNumber
  | Proxy_updateStorage string string
  | Differ_getDiffFromStorage
  | Differ_getDiffFromProof
  | Differ_getDiffFromSrcContractTxs

text \<open>
  An operation of the engine takes the engine and the calls sent so far, and gives its
  outcome with the engine and the calls afterwards. A rejection or an exit of the process
  keeps what was done before it.
\<close>

type_synonym engine_state = "chainProxy \<times> rpc_call list"
type_synonym 'a action = "engine_state \<Rightarrow> 'a outcome \<times> engine_state"

definition ret :: "'a \<Rightarrow> 'a action" where
  "ret v = (\<lambda>s. (Returned v, s))"

definition reject :: "js_error \<Rightarrow> 'a action" where
  "reject e = (\<lambda>s. (Rejected e, s))"

definition exitProcess :: "'a action" where
  "exitProcess = (\<lambda>s. (ProcessExit, s))"

definition bindA :: "'a action \<Rightarrow> ('a \<Rightarrow> 'b action) \<Rightarrow> 'b action" where
  "bindA m f = (\<lambda>s. case m s of
      (Returned a, s') \<Rightarrow> f a s'
    | (Rejected e, s') \<Rightarrow> (Rejected e, s')
    | (ProcessExit, s') \<Rightarrow> (ProcessExit, s'))"

text \<open>\<^verbatim>\<open>try { m } catch (e) { handler }\<close>.\<close>

definition tryCatch :: "'a action \<Rightarrow> (js_error \<Rightarrow> 'a action) \<Rightarrow> 'a action" where
  "tryCatch m handler = (\<lambda>s. case m s of
      (Rejected e, s') \<Rightarrow> handler e s'
    | r \<Rightarrow> r)"

text \<open>\<^verbatim>\<open>await\<close> of a call that is sent now, and of a computation that sends nothing.\<close>

definition call :: "rpc_call \<Rightarrow> js_error + 'a \<Rightarrow> 'a action" where
  "call c answer = (\<lambda>(this, log). (await answer, this, log @ [c]))"

definition awaitA :: "js_error + 'a \<Rightarrow> 'a action" where
  "awaitA answer = (\<lambda>s. (await answer, s))"

definition this_engine :: "chainProxy action" where
  "this_engine = (\<lambda>(this, log). (Returned this, this, log))"

definition assign :: "(chainProxy \<Rightarrow> chainProxy) \<Rightarrow> unit action" where
  "assign f = (\<lambda>(this, log). (Returned (), f this, log))"

text \<open>Reading a property of an attached contract: a \<^verbatim>\<open>TypeError\<close> when it is \<^verbatim>\<open>undefined\<close>.\<close>

definition attached :: "string option \<Rightarrow> string action" where
  "attached contract = (case contract of None \<Rightarrow> reject TypeError | Some a \<Rightarrow> ret a)"

subsection \<open>cloneLogic and deployProxy\<close>

definition cloneLogic :: "chain \<Rightarrow> bool action" where
  "cloneLogic c =
     bindA this_engine (\<lambda>this.
     bindA (call (Src_getCodeForClone (srcContractAddress this))
              (createDeployingByteCode c (srcContractAddress this))) (\<lambda>logicContractByteCode.
     tryCatch
       (bindA (call (Logic_deploy logicContractByteCode) (logic_deploy c logicContractByteCode))
          (\<lambda>logicContract.
        bindA (call (Deployment_wait logicContract) (deployment_wait c logicContract))
          (\<lambda>gasUsed.
        bindA (awaitA (toNumber gasUsed)) (\<lambda>gasUsedForDeployment.
        bindA (assign (\<lambda>t. t\<lparr>logicContractAddress := Some logicContract\<rparr>)) (\<lambda>_.
        ret True)))))
       (\<lambda>e. ret False)))"

definition deployProxy :: "chain \<Rightarrow> bool action" where
  "deployProxy c =
     bindA this_engine (\<lambda>this.
     case logicContractAddress this of
       None \<Rightarrow> ret False
     | Some logic \<Rightarrow>
         bindA (attached (relayContract this)) (\<lambda>relay.
         bindA (awaitA (compiledAbiAndBytecode c relay logic (srcContractAddress this)))
           (\<lambda>compiledProxy.
         if compile_error compiledProxy then ret False
         else
           tryCatch
             (bindA (call (Proxy_deploy (bytecode compiledProxy))
                       (proxy_deploy c (bytecode compiledProxy))) (\<lambda>proxy.
              bindA (assign (\<lambda>t. t\<lparr>proxyContract := Some proxy\<rparr>)) (\<lambda>_.
              bindA (call (Deployment_wait proxy) (deployment_wait c proxy))
                (\<lambda>gasUsed.
              bindA (awaitA (toNumber gasUsed)) (\<lambda>gasUsedForDeployment.
              ret True)))))
             (\<lambda>e. ret False))))"

subsection \<open>initialStorageMigration\<close>

text \<open>
  The loop that sends the storage: each round splices the first
  \<open>KEY_VALUE_PAIR_PER_BATCH\<close> keys and values off the two arrays and sends them in one
  \<^verbatim>\<open>addStorage\<close> call; once \<open>batchSize\<close> calls are pending they are awaited together, a
  missing transaction ends the process, and the array of pending calls is emptied.
  \<open>thisProxy\<close> is \<^verbatim>\<open>this.proxyContract\<close>: when it is \<^verbatim>\<open>undefined\<close>, the first round
  raises a \<^verbatim>\<open>TypeError\<close> before anything is sent.
\<close>

function addStorage_loop ::
  "chain \<Rightarrow> string option \<Rightarrow> int \<Rightarrow> string list \<Rightarrow> string list \<Rightarrow> (js_error + string option) list
   \<Rightarrow> string option list \<Rightarrow> rpc_call list
   \<Rightarrow> ((js_error + string option) list \<times> string option list) outcome \<times> rpc_call list" where
  "addStorage_loop c thisProxy batch proxyKeys proxyValues storageAdds txs log =
     (if length proxyKeys > 0 then
        (case thisProxy of
           None \<Rightarrow> (Rejected TypeError, log)
         | Some proxy \<Rightarrow>
            (let keys = take KEY_VALUE_PAIR_PER_BATCH proxyKeys;
                 vals = take KEY_VALUE_PAIR_PER_BATCH proxyValues;
                 restKeys = drop KEY_VALUE_PAIR_PER_BATCH proxyKeys;
                 restValues = drop KEY_VALUE_PAIR_PER_BATCH proxyValues;
                 storageAdds' = storageAdds @ [proxy_addStorage c proxy keys vals];
                 log' = log @ [Proxy_addStorage keys vals]
             in
             if int (length storageAdds') \<ge> batch then
               (case awaitAll storageAdds' of
                  Inl err \<Rightarrow> (Rejected err, log' @ [Awaited (length storageAdds')])
                | Inr resolvedTxs \<Rightarrow>
                    (if list_ex Option.is_none resolvedTxs
                     then (ProcessExit, log' @ [Awaited (length storageAdds')])
                     else addStorage_loop c thisProxy batch restKeys restValues []
                            (txs @ resolvedTxs) (log' @ [Awaited (length storageAdds')])))
             else addStorage_loop c thisProxy batch restKeys restValues storageAdds' txs log'))
      else (Returned (storageAdds, txs), log))"
  by pat_completeness auto
termination
  by (relation "measure (\<lambda>(c, proxy, batch, ks, vs, adds, txs, log). length ks)")
     (auto simp add: KEY_VALUE_PAIR_PER_BATCH_def)

declare addStorage_loop.simps [simp del]

text \<open>The loop, the await of the calls still pending after it, and the check of those.\<close>

definition send_storage ::
  "chain \<Rightarrow> string option \<Rightarrow> int \<Rightarrow> string list \<Rightarrow> string list \<Rightarrow> string list action" where
  "send_storage c thisProxy batch proxyKeys proxyValues =
     (\<lambda>(this, log).
        case addStorage_loop c thisProxy batch proxyKeys proxyValues [] [] log of
          (Rejected e, log') \<Rightarrow> (Rejected e, this, log')
        | (ProcessExit, log') \<Rightarrow> (ProcessExit, this, log')
        | (Returned (storageAdds, txs), log') \<Rightarrow>
            (case awaitAll storageAdds of
               Inl err \<Rightarrow> (Rejected err, this, log' @ [Awaited (length storageAdds)])
             | Inr resolvedTxs \<Rightarrow>
                 (if list_ex Option.is_none resolvedTxs
                  then (ProcessExit, this, log' @ [Awaited (length storageAdds)])
                  else (Returned (map the (txs @ resolvedTxs)), this,
                        log' @ [Awaited (length storageAdds)]))))"

text \<open>
  \<^verbatim>\<open>tx.wait()\<close> is called on every transaction, then all receipts are awaited; the gas
  of each is turned into a number and summed for the log only.
\<close>

definition wait_for_receipts :: "chain \<Rightarrow> string list \<Rightarrow> int list action" where
  "wait_for_receipts c txs =
     (\<lambda>(this, log). (await (awaitAll (map (tx_wait c) txs)), this, log @ map Tx_wait txs))"

text \<open>
  The validation that follows (from \<^verbatim>\<open>txs.forEach\<close> to the end of
  \<^verbatim>\<open>initialStorageMigration\<close>): the receipts, the two account proofs, the encoded header
  of the proxy chain's latest block, \<^verbatim>\<open>verifyMigrateContract\<close>, and the migration state
  read back from the relay.
\<close>

definition validate_migration ::
  "chain \<Rightarrow> getProof \<Rightarrow> string \<Rightarrow> string \<Rightarrow> string option \<Rightarrow> string list \<Rightarrow> bool action" where
  "validate_migration c initialValuesProof stateRoot blockNumber thisProxy txs =
     bindA this_engine (\<lambda>this.
     bindA (wait_for_receipts c txs) (\<lambda>txsReceipts.
     bindA (awaitA (awaitAll (map toNumber txsReceipts))) (\<lambda>gasUsed.
     bindA (awaitA (optimizedProof c initialValuesProof stateRoot False)) (\<lambda>sourceAccountProof.
     bindA (call (Target_getBlockByNumber ''latest'') (target_getBlockByNumber c ''latest''))
       (\<lambda>latestProxyChainBlock.
     bindA (attached thisProxy) (\<lambda>proxy.
     bindA (call (Target_getProof proxy) (target_getProof c proxy)) (\<lambda>proxyChainProof.
     case latestProxyChainBlock of
       None \<Rightarrow> reject TypeError
     | Some latestProxyChainBlock \<Rightarrow>
         bindA (awaitA (optimizedProof c proxyChainProof (h_stateRoot latestProxyChainBlock) False))
           (\<lambda>proxyAccountProof.
         let encodedBlockHeader = encodeBlockHeader (rlp_encode c) (toHexString c) latestProxyChainBlock in
         bindA (tryCatch
                  (bindA (attached (relayContract this)) (\<lambda>relay.
                   bindA (awaitA (bigNumber_from c (h_number latestProxyChainBlock))) (\<lambda>number.
                   bindA (awaitA (toNumber number)) (\<lambda>targetBlockNumber.
                   bindA (call (Relay_verifyMigrateContract proxy blockNumber)
                            (relay_verifyMigrateContract c relay sourceAccountProof proxyAccountProof
                               encodedBlockHeader proxy targetBlockNumber blockNumber))
                     (\<lambda>tx.
                   bindA (call (Tx_wait tx) (tx_wait c tx)) (\<lambda>gasUsed.
                   bindA (awaitA (toNumber gasUsed)) (\<lambda>gasUsedForTx.
                   ret True)))))))
                  (\<lambda>e. ret False)) (\<lambda>verified.
         if \<not> verified then ret False
         else
           tryCatch
             (bindA (attached (relayContract this)) (\<lambda>relay.
              bindA (call (Relay_getMigrationState proxy) (relay_getMigrationState c relay proxy))
                (\<lambda>migrationValidated.
              bindA (assign (\<lambda>t. t\<lparr>migrationState := migrationValidated\<rparr>)) (\<lambda>_.
              if \<not> migrationValidated then ret False else ret True))))
             (\<lambda>e. ret False))))))))))"

text \<open>
  \<^verbatim>\<open>initialStorageMigration\<close> is private and runs after \<^verbatim>\<open>deployProxy\<close> has returned
  true, so the proxy is attached. Without one, a \<^verbatim>\<open>TypeError\<close> is raised where the proxy
  is first read: in the first round of the loop, or, when there is nothing to send, at
  \<^verbatim>\<open>eth_getProof\<close> for the proxy.
\<close>

definition initialStorageMigration :: "chain \<Rightarrow> getProof \<Rightarrow> string \<Rightarrow> string \<Rightarrow> bool action" where
  "initialStorageMigration c initialValuesProof stateRoot blockNumber =
     bindA this_engine (\<lambda>this.
     let proxyKeys = map (\<lambda>entry. hexZeroPad32 c (fst entry)) (storageProof initialValuesProof);
         proxyValues = map (\<lambda>entry. hexZeroPad32 c (snd entry)) (storageProof initialValuesProof)
     in
     bindA (send_storage c (proxyContract this) (batchSize this) proxyKeys proxyValues) (\<lambda>txs.
     validate_migration c initialValuesProof stateRoot blockNumber (proxyContract this) txs))"

subsection \<open>migrateSrcContract\<close>

text \<open>
  \<^verbatim>\<open>this.srcProvider.getCode(this.srcContractAddress)\<close> is called with the address alone:
  the block tag of the call is \<open>None\<close>, the provider's default.
\<close>

definition migrateSrcContract :: "chain \<Rightarrow> blocktag \<Rightarrow> bool action" where
  "migrateSrcContract c fromBlock =
     bindA this_engine (\<lambda>this.
     if \<not> initialized this then ret False
     else if \<not> isAddress c (srcContractAddress this) then ret False
     else
       bindA (tryCatch
                (bindA (call (Src_getCode (srcContractAddress this) None)
                          (src_getCode c (srcContractAddress this) None)) (\<lambda>code.
                 ret (length code < 3)))
                (\<lambda>e. ret True)) (\<lambda>noContract.
       if noContract then ret False
       else
         bindA (case relayContract this of
                  Some relay \<Rightarrow> ret relay
                | None \<Rightarrow>
                    bindA (call Relay_deploy (relay_deploy c)) (\<lambda>relay.
                    bindA (assign (\<lambda>t. t\<lparr>relayContract := Some relay\<rparr>)) (\<lambda>_.
                    ret relay))) (\<lambda>relay.
         let srcBlockParity = toParityQuantity c fromBlock in
         bindA (call (Src_listStorageKeys (srcContractAddress this) srcBlockParity)
                  (getAllKeys c (srcContractAddress this) srcBlockParity (batchSize this))) (\<lambda>keys.
         bindA (call (Src_getBlockByNumber srcBlockParity) (src_getBlockByNumber c srcBlockParity))
           (\<lambda>latestBlock.
         bindA (call (Src_getProof (srcContractAddress this) keys srcBlockParity)
                  (src_getProof c (srcContractAddress this) keys srcBlockParity))
           (\<lambda>initialValuesProof.
         case latestBlock of
           None \<Rightarrow> reject TypeError
         | Some latestBlock \<Rightarrow>
             bindA (call (Relay_addBlock (h_stateRoot latestBlock) (h_number latestBlock))
                      (relay_addBlock c relay (h_stateRoot latestBlock) (h_number latestBlock)))
               (\<lambda>_.
             bindA (cloneLogic c) (\<lambda>result.
             if \<not> result then ret False
             else
               bindA (deployProxy c) (\<lambda>result.
               if \<not> result then ret False
               else
                 bindA (initialStorageMigration c initialValuesProof (h_stateRoot latestBlock)
                          (h_number latestBlock)) (\<lambda>result.
                 if \<not> result then ret False
                 else ret True))))))))))"

subsection \<open>migrateChangesToProxy\<close>

text \<open>The second argument defaults to \<^verbatim>\<open>this.targetBlock\<close>: \<open>None\<close> is the argument left out.\<close>

definition migrateChangesToProxy :: "chain \<Rightarrow> string list \<Rightarrow> blocktag option \<Rightarrow> bool action" where
  "migrateChangesToProxy c changedKeys targetBlockArg =
     bindA this_engine (\<lambda>this.
     let toBlock = (case targetBlockArg of None \<Rightarrow> targetBlock this | Some b \<Rightarrow> b) in
     if \<not> initialized this then ret False
     else if \<not> migrationState this then ret False
     else if length changedKeys < 1 then ret True
     else if relayContract this = None then ret False
     else
       bindA (attached (relayContract this)) (\<lambda>relay.
       let parityLatestSrcBlock = toParityQuantity c toBlock in
       bindA (call (Src_getBlockByNumber parityLatestSrcBlock)
                (src_getBlockByNumber c parityLatestSrcBlock)) (\<lambda>latestBlock.
       bindA (call (Src_getProof (srcContractAddress this) changedKeys parityLatestSrcBlock)
                (src_getProof c (srcContractAddress this) changedKeys parityLatestSrcBlock))
         (\<lambda>changedKeysProof.
       case latestBlock of
         None \<Rightarrow> reject TypeError
       | Some latestBlock \<Rightarrow>
           bindA (awaitA (optimizedProof c changedKeysProof (h_stateRoot latestBlock) True))
             (\<lambda>rlpProof.
           bindA (call (Relay_addBlock (h_stateRoot latestBlock) (h_number latestBlock))
                    (relay_addBlock c relay (h_stateRoot latestBlock) (h_number latestBlock)))
             (\<lambda>_.
           tryCatch
             (bindA (attached (proxyContract this)) (\<lambda>proxy.
              bindA (call (Proxy_updateStorage rlpProof (h_number latestBlock))
                       (proxy_updateStorage c proxy rlpProof (h_number latestBlock))) (\<lambda>txResponse.
              bindA (call (Tx_wait txResponse) (tx_wait c txResponse)) (\<lambda>receipt.
              bindA (awaitA (toNumber receipt)) (\<lambda>gasUsed.
              ret True)))))
             (\<lambda>e. ret False)))))))"

subsection \<open>getDiff\<close>

datatype getDiffMethod = SrcTx | Storage | GetProof

text \<open>\<^verbatim>\<open>parameters\<close>: the two block arguments, each possibly \<^verbatim>\<open>undefined\<close>.\<close>

record diffParameters =
  param_srcBlock :: "blocktag option"
  param_targetBlock :: "blocktag option"

text \<open>\<^verbatim>\<open>if (targetBlock)\<close>: \<^verbatim>\<open>undefined\<close>, the number 0 and the empty string are not true.\<close>

definition truthy_block :: "blocktag option \<Rightarrow> bool" where
  "truthy_block b =
     (case b of None \<Rightarrow> False | Some (Num n) \<Rightarrow> n \<noteq> 0 | Some (Tag s) \<Rightarrow> s \<noteq> [])"

text \<open>
  \<^verbatim>\<open>BigNumber.from(srcBlock)\<close>: \<^verbatim>\<open>undefined\<close> is refused, a number must be in range,
  \<open>bigNumber_from\<close> reads a string.
\<close>

definition bigNumberFrom :: "chain \<Rightarrow> blocktag option \<Rightarrow> js_error + int" where
  "bigNumberFrom c b =
     (case b of
        None \<Rightarrow> Inl InvalidArgument
      | Some (Num n) \<Rightarrow> bigNumber_of_number n
      | Some (Tag s) \<Rightarrow> bigNumber_from c s)"

text \<open>
  The start of the cases \<^verbatim>\<open>'getProof'\<close> and \<^verbatim>\<open>default\<close>, which is the same in both: with
  a relay and a proxy attached, \<open>srcBlock\<close> becomes \<^verbatim>\<open>synchedBlockNr.toNumber() + 1\<close>, the
  block after the synchronized one; then, if a target block is given and
  \<^verbatim>\<open>BigNumber.from(srcBlock).gt(givenTargetBlockNr)\<close>, the result is
  \<^verbatim>\<open>new StorageDiff([])\<close> (\<open>Some []\<close> here; \<open>None\<close> tells the caller to go on). \<^verbatim>\<open>gt\<close>
  turns its argument, a number, into a \<^verbatim>\<open>BigNumber\<close> as well.
\<close>

definition synchronized_srcBlock :: "chain \<Rightarrow> blocktag option \<Rightarrow> blocktag option action" where
  "synchronized_srcBlock c givenSrcBlock =
     bindA this_engine (\<lambda>this.
     case relayContract this of
       None \<Rightarrow> ret givenSrcBlock
     | Some relay \<Rightarrow>
         (case proxyContract this of
            None \<Rightarrow> ret givenSrcBlock
          | Some proxy \<Rightarrow>
              bindA (call (Relay_getCurrentBlockNumber proxy) (relay_getCurrentBlockNumber c relay proxy))
                (\<lambda>synchedBlockNr.
              bindA (awaitA (toNumber synchedBlockNr)) (\<lambda>n.
              ret (Some (Num (n + 1)))))))"

definition empty_when_ahead ::
  "chain \<Rightarrow> blocktag option \<Rightarrow> blocktag option \<Rightarrow> storageDiff option action" where
  "empty_when_ahead c fromBlock toBlock =
     (if truthy_block toBlock then
        bindA (call (Src_toBlockNumber (the toBlock)) (src_toBlockNumber c (the toBlock)))
          (\<lambda>givenTargetBlockNr.
        bindA (awaitA (bigNumberFrom c fromBlock)) (\<lambda>src.
        bindA (awaitA (bigNumber_of_number givenTargetBlockNr)) (\<lambda>other.
        if src > other then ret (Some []) else ret None)))
      else ret None)"

definition getDiff :: "chain \<Rightarrow> getDiffMethod \<Rightarrow> diffParameters \<Rightarrow> storageDiff option action" where
  "getDiff c how parameters =
     bindA this_engine (\<lambda>this.
     if \<not> initialized this then ret None
     else
       (case how of
          Storage \<Rightarrow>
            (case proxyContractAddress this of
               None \<Rightarrow> ret None
             | Some proxyAddress \<Rightarrow>
                 if proxyAddress = [] then ret None
                 else if \<not> migrationState this then ret None
                 else
                   bindA (call Differ_getDiffFromStorage
                            (getDiffFromStorage c (srcContractAddress this) proxyAddress
                               (param_srcBlock parameters) (param_targetBlock parameters)))
                     (\<lambda>d. ret (Some d)))
        | GetProof \<Rightarrow>
            bindA (synchronized_srcBlock c (param_srcBlock parameters)) (\<lambda>fromBlock.
            bindA (empty_when_ahead c fromBlock (param_targetBlock parameters)) (\<lambda>ahead.
            case ahead of
              Some d \<Rightarrow> ret (Some d)
            | None \<Rightarrow>
                bindA (call Differ_getDiffFromProof
                         (getDiffFromProof c (srcContractAddress this)
                            (param_targetBlock parameters) fromBlock))
                  (\<lambda>d. ret (Some d))))
        | SrcTx \<Rightarrow>
            bindA (synchronized_srcBlock c (param_srcBlock parameters)) (\<lambda>fromBlock.
            bindA (empty_when_ahead c fromBlock (param_targetBlock parameters)) (\<lambda>ahead.
            case ahead of
              Some d \<Rightarrow> ret (Some d)
            | None \<Rightarrow>
                bindA (call Differ_getDiffFromSrcContractTxs
                         (getDiffFromSrcContractTxs c (srcContractAddress this)
                            (param_targetBlock parameters) fromBlock))
                  (\<lambda>d. ret (Some d))))))"

subsection \<open>getLatestBlockNumber and getCurrentBlockNumber\<close>

text \<open>
  \<^verbatim>\<open>BigNumber.from(-1)\<close> is the integer -1. \<^verbatim>\<open>this.srcBlock = currNr.toNumber()\<close> throws,
  before the assignment, when the relay's answer does not fit a number.
\<close>

definition getLatestBlockNumber :: "chain \<Rightarrow> int action" where
  "getLatestBlockNumber c =
     bindA this_engine (\<lambda>this.
     if \<not> initialized this then ret (- 1)
     else
       (case relayContract this of
          None \<Rightarrow> ret (- 1)
        | Some relay \<Rightarrow> call Relay_getLatestBlockNumber (relay_getLatestBlockNumber c relay)))"

definition getCurrentBlockNumber :: "chain \<Rightarrow> int action" where
  "getCurrentBlockNumber c =
     bindA this_engine (\<lambda>this.
     if \<not> initialized this then ret (- 1)
     else
       (case relayContract this of
          None \<Rightarrow> ret (- 1)
        | Some relay \<Rightarrow>
            bindA (attached (proxyContract this)) (\<lambda>proxy.
            bindA (call (Relay_getCurrentBlockNumber proxy) (relay_getCurrentBlockNumber c relay proxy))
              (\<lambda>currNr.
            bindA (awaitA (toNumber currNr)) (\<lambda>n.
            bindA (assign (\<lambda>t. t\<lparr>srcBlock := Num n\<rparr>)) (\<lambda>_.
            ret currNr))))))"

section \<open>ProxyContract\<close>

text \<open>
  The proxy contract on the target chain. A transaction either succeeds with the new
  storage of the proxy and the new state of the relay, or reverts: a revert undoes every
  write of the transaction, the \<^verbatim>\<open>sstore\<close>s of \<^verbatim>\<open>setStorage\<close> included.
\<close>

type_synonym bytes = "8 word list"
type_synonym bytes32 = "256 word"
type_synonym evm_storage = "bytes32 \<Rightarrow> bytes32"

datatype 'r tx_result = Reverted string | Succeeded evm_storage 'r

text \<open>\<^verbatim>\<open>GetProofLib.GetProof\<close>, \<^verbatim>\<open>GetProofLib.Account\<close> and \<^verbatim>\<open>GetProofLib.StorageProof\<close>.\<close>

record parsedProof =
  gp_account :: bytes
  gp_accountProof :: bytes
  gp_storageProofs :: bytes

record parsedAccount =
  acc_nonce :: "256 word"
  acc_balance :: "256 word"
  acc_storageHash :: bytes32
  acc_codeHash :: bytes32

record parsedStorageProof =
  sp_key :: bytes32
  sp_value :: bytes
  sp_proof :: bytes

text \<open>
  The relay contract and the libraries (\<^verbatim>\<open>GetProofLib\<close>, \<^verbatim>\<open>MerklePatriciaProof\<close>,
  \<^verbatim>\<open>RLPReader\<close>) are imported by the contract and taken as given; \<open>'r\<close> is the state of
  the relay. A function that can revert answers \<open>None\<close> then.
\<close>

record 'r libraries =
  getStateRoot :: "'r \<Rightarrow> 256 word \<Rightarrow> bytes32"
  getSource :: "'r \<Rightarrow> 160 word"
  setCurrentStateBlock :: "'r \<Rightarrow> 256 word \<Rightarrow> 'r option"
  encodedAddress :: "160 word \<Rightarrow> bytes"
  parseProof :: "bytes \<Rightarrow> parsedProof option"
  verifyProof :: "bytes \<Rightarrow> bytes \<Rightarrow> bytes \<Rightarrow> bytes32 \<Rightarrow> bool"
  parseAccount :: "bytes \<Rightarrow> parsedAccount option"
  rlpList :: "bytes \<Rightarrow> bytes list option"
  parseStorageProof :: "bytes \<Rightarrow> parsedStorageProof option"
  triePath :: "bytes32 \<Rightarrow> bytes"
  mpp_verify :: "bytes \<Rightarrow> bytes \<Rightarrow> bytes \<Rightarrow> bytes32 \<Rightarrow> bool"
  toUint :: "bytes \<Rightarrow> 256 word option"

text \<open>
  The loop of \<^verbatim>\<open>setStorage\<close> over the items of the list: parse the storage proof, verify
  it against \<open>storageHash\<close>, decode the value, store it in the slot of the key.
  \<open>Inl\<close> is a revert.
\<close>

fun setStorage_loop ::
  "'r libraries \<Rightarrow> bytes list \<Rightarrow> bytes32 \<Rightarrow> evm_storage \<Rightarrow> string + evm_storage" where
  "setStorage_loop L [] storageHash storage = Inr storage"
| "setStorage_loop L (item # items) storageHash storage =
     (case parseStorageProof L item of
        None \<Rightarrow> Inl ''''
      | Some proof \<Rightarrow>
          (let path = triePath L (sp_key proof) in
           if \<not> mpp_verify L (sp_value proof) path (sp_proof proof) storageHash
           then Inl ''Failed to verify the storage proof''
           else
             (case toUint L (sp_value proof) of
                None \<Rightarrow> Inl ''''
              | Some v \<Rightarrow> setStorage_loop L items storageHash (storage(sp_key proof := v)))))"

definition setStorage :: "'r libraries \<Rightarrow> bytes \<Rightarrow> bytes32 \<Rightarrow> evm_storage \<Rightarrow> string + evm_storage" where
  "setStorage L rlpStorage storageHash storage =
     (case rlpList L rlpStorage of
        None \<Rightarrow> Inl ''''
      | Some items \<Rightarrow> setStorage_loop L items storageHash storage)"

definition updateStorage :: "'r libraries \<Rightarrow> evm_storage \<times> 'r \<Rightarrow> bytes \<Rightarrow> 256 word \<Rightarrow> 'r tx_result" where
  "updateStorage L world proof blockHash =
     (let storage = fst world; relay = snd world;
          root = getStateRoot L relay blockHash;
          path = encodedAddress L (getSource L relay)
      in
      case parseProof L proof of
        None \<Rightarrow> Reverted ''''
      | Some getProof \<Rightarrow>
          if \<not> verifyProof L (gp_account getProof) (gp_accountProof getProof) path root
          then Reverted ''Failed to verify the account proof''
          else
            (case parseAccount L (gp_account getProof) of
               None \<Rightarrow> Reverted ''''
             | Some account \<Rightarrow>
                 (case setStorage L (gp_storageProofs getProof) (acc_storageHash account) storage of
                    Inl reason \<Rightarrow> Reverted reason
                  | Inr storage' \<Rightarrow>
                      (case setCurrentStateBlock L relay blockHash of
                         None \<Rightarrow> Reverted ''''
                       | Some relay' \<Rightarrow> Succeeded storage' relay'))))"

text \<open>The storage of the proxy and the relay after the transaction.\<close>

definition world_after :: "evm_storage \<times> 'r \<Rightarrow> 'r tx_result \<Rightarrow> evm_storage \<times> 'r" where
  "world_after world result =
     (case result of Reverted reason \<Rightarrow> world | Succeeded storage relay \<Rightarrow> (storage, relay))"

section \<open>Scenarios\<close>

text \<open>
  A source node for the scenarios: \<open>blocks\<close> gives the transaction hashes of each block,
  \<open>traces\<close> the answer of \<^verbatim>\<open>trace_replayTransaction\<close> for each hash. Every transaction
  is sent to the source contract.
\<close>

definition src_contract :: string where
  "src_contract = ''0x0a911618A3dD806a5D14bf856cf355C4b9C84526''"

definition slot_key :: "char \<Rightarrow> string" where
  "slot_key c = ''0x'' @ replicate 63 (CHR ''0'') @ [c]"

definition word_of :: "string \<Rightarrow> string" where
  "word_of s = ''0x'' @ replicate (64 - length s) (CHR ''0'') @ s"

definition node ::
  "(int \<times> string list) list \<Rightarrow> (string \<times> (js_error + parityResponseData)) list \<Rightarrow> provider" where
  "node blocks traces = \<lparr>
     getBlock = (\<lambda>i. Inr (map_option (\<lambda>hashes. \<lparr>transactions = hashes\<rparr>) (map_of blocks i))),
     getTransaction = (\<lambda>h. Inr \<lparr>tx_hash = h, tx_to = Some src_contract\<rparr>),
     getTransactionReceipt = (\<lambda>h. Inr \<lparr>transactionHash = h, contractAddress = None\<rparr>),
     trace_replayTransaction =
       (\<lambda>h. case map_of traces h of None \<Rightarrow> Inl (RpcFailure ''unknown transaction'') | Some r \<Rightarrow> r),
     toBlockNumber = (\<lambda>s. Inl (RpcFailure ''unknown block'')),
     findDeploymentBlock = (\<lambda>a. Inr 1) \<rparr>"

definition modifies :: "string \<Rightarrow> string \<Rightarrow> string \<times> keyObject" where
  "modifies k v = (k, \<lparr>modified_to = Some v, created = None\<rparr>)"

definition creates :: "string \<Rightarrow> string \<Rightarrow> string \<times> keyObject" where
  "creates k v = (k, \<lparr>modified_to = None, created = Some v\<rparr>)"

text \<open>
  Ten blocks, three of which hold a transaction of the contract: block 3 creates slot 1,
  block 5 modifies slot 1 and creates slot 2, block 8 sets slot 2 to zero.
\<close>

definition ten_blocks :: "(int \<times> string list) list" where
  "ten_blocks = [(1, []), (2, []), (3, [''0xt3'']), (4, []), (5, [''0xt5'']), (6, []), (7, []),
     (8, [''0xt8'']), (9, []), (10, [])]"

definition ten_block_node :: provider where
  "ten_block_node = node ten_blocks
     [(''0xt3'', Inr [(toLowerCase src_contract, [creates (slot_key (CHR ''1'')) (word_of ''2a'')])]),
      (''0xt5'', Inr [(toLowerCase src_contract,
          [modifies (slot_key (CHR ''1'')) (word_of ''2b''), creates (slot_key (CHR ''2'')) (word_of ''07'')])]),
      (''0xt8'', Inr [(toLowerCase src_contract, [modifies (slot_key (CHR ''2'')) (word_of [])])])]"

text \<open>One block whose transaction sets slot 0 to zero.\<close>

definition slot0_node :: provider where
  "slot0_node = node [(1, [''0xt1''])]
     [(''0xt1'', Inr [(toLowerCase src_contract, [modifies (slot_key (CHR ''0'')) (word_of [])])])]"



section \<open>The calls a run of getTransactions issues\<close>








section \<open>What the replayed storages say about a key\<close>

text \<open>The new value a \<^verbatim>\<open>KeyObject\<close> reports: the \<^verbatim>\<open>to\<close> of \<^verbatim>\<open>'*'\<close>, else \<^verbatim>\<open>'+'\<close>.\<close>

definition new_value :: "keyObject \<Rightarrow> string option" where
  "new_value ko = (case modified_to ko of Some v \<Rightarrow> Some v | None \<Rightarrow> created ko)"

text \<open>The new values a transaction's \<^verbatim>\<open>storage\<close> object reports for key \<open>k\<close>, in order.\<close>

definition values_reported :: "storage_diff \<Rightarrow> string \<Rightarrow> string list" where
  "values_reported txStorage k =
     List.map_filter (\<lambda>entry. if fst entry = k then new_value (snd entry) else None) txStorage"

text \<open>The values the storages in \<open>txStorages\<close> hold for key \<open>k\<close>, in order.\<close>

definition values_replayed :: "(string \<times> string) list option list \<Rightarrow> string \<Rightarrow> string list" where
  "values_replayed txStorages k =
     concat (map (\<lambda>storage. case storage of None \<Rightarrow> []
                   | Some entries \<Rightarrow> map snd (filter (\<lambda>e. fst e = k) entries)) txStorages)"

definition last_of :: "'a list \<Rightarrow> 'a option" where
  "last_of vs = (if vs = [] then None else Some (last vs))"

section \<open>A migration scenario\<close>

text \<open>
  Two chains on which every call succeeds. The source contract was deployed after block 5:
  it has code at the latest block and 250 storage slots, and neither code nor storage at
  block 5. The relay reports block 12 as synchronized.
\<close>

definition hex_digit :: "nat \<Rightarrow> char" where
  "hex_digit n = ''0123456789abcdef'' ! (n mod 16)"

definition slot_hex :: "nat \<Rightarrow> string" where
  "slot_hex i = ''0x'' @ [hex_digit (i div 16), hex_digit i]"

definition slots :: "nat \<Rightarrow> string list" where
  "slots n = map slot_hex [0..<n]"

definition relay_address :: string where
  "relay_address = ''0xeBf794b5Cf0217CB806f48d2217D3ceE1e25A7C3''"

definition logic_address :: string where
  "logic_address = ''0x0a911618A3dD806a5D14bf856cf355C4b9C84527''"

definition proxy_address :: string where
  "proxy_address = ''0x20a508640B446990c781Cd541B9a2828ACA3a350''"

definition header_of :: "string \<Rightarrow> string \<Rightarrow> blockHeader" where
  "header_of num root = \<lparr>
     h_parentHash = word_of ''a1'', h_sha3Uncles = word_of ''b2'', h_miner = relay_address,
     h_stateRoot = root, h_transactionsRoot = word_of ''c3'', h_receiptsRoot = word_of ''d4'',
     h_logsBloom = ''0x00'', h_difficulty = ''0x2'', h_number = num, h_gasLimit = ''0x7a1200'',
     h_gasUsed = ''0x5208'', h_timestamp = ''0x5f5e100'', h_extraData = ''0x'',
     h_mixHash = None, h_nonce = None \<rparr>"

definition proof_of :: "string list \<Rightarrow> getProof" where
  "proof_of ks = \<lparr>storageProof = map (\<lambda>k. (k, ''0x2a'')) ks, proof_payload = ''0xf90211''\<rparr>"

definition two_chains :: chain where
  "two_chains = \<lparr>
     isAddress = (\<lambda>a. length a = 42),
     hexZeroPad32 = (\<lambda>v. word_of (drop 2 v)),
     rlp_encode = concat,
     toHexString = (\<lambda>v. v),
     bigNumber_from = (\<lambda>s. if s = ''0x9'' then Inr 9 else Inl InvalidArgument),
     toParityQuantity = (\<lambda>b. case b of Num n \<Rightarrow> (if n = 5 then ''0x5'' else ''0x14'') | Tag s \<Rightarrow> s),
     src_toBlockNumber = (\<lambda>b. case b of Num n \<Rightarrow> Inr n | Tag s \<Rightarrow> Inr 20),
     src_getCode = (\<lambda>a b. if b = Some (Num 5) then Inr ''0x'' else Inr ''0x6080604052''),
     getAllKeys = (\<lambda>a b n. if b = ''0x5'' then Inr [] else Inr (slots 250)),
     src_getBlockByNumber = (\<lambda>b. Inr (Some (header_of b (word_of ''e5'')))),
     src_getProof = (\<lambda>a ks b. Inr (proof_of ks)),
     optimizedProof = (\<lambda>p root storage. Inr (proof_payload p)),
     createDeployingByteCode = (\<lambda>a. Inr ''0x600a600c600039600a6000f36080604052''),
     compiledAbiAndBytecode = (\<lambda>relay logic src. Inr \<lparr>compile_error = False, bytecode = ''0x6080''\<rparr>),
     relay_deploy = Inr relay_address,
     logic_deploy = (\<lambda>code. Inr logic_address),
     proxy_deploy = (\<lambda>code. Inr proxy_address),
     deployment_wait = (\<lambda>a. Inr 21000),
     relay_addBlock = (\<lambda>relay root num. Inr ()),
     proxy_addStorage = (\<lambda>proxy ks vs. Inr (Some ''0x7a'')),
     tx_wait = (\<lambda>tx. Inr 21000),
     target_getBlockByNumber = (\<lambda>b. Inr (Some (header_of ''0x9'' (word_of ''f6'')))),
     target_getProof = (\<lambda>a. Inr (proof_of [])),
     relay_verifyMigrateContract = (\<lambda>relay sp pp header proxy tnum snum. Inr ''0x7b''),
     relay_getMigrationState = (\<lambda>relay proxy. Inr True),
     relay_getCurrentBlockNumber = (\<lambda>relay proxy. Inr 12),
     relay_getLatestBlockNumber = (\<lambda>relay. Inr 12),
     proxy_updateStorage = (\<lambda>proxy rlpProof num. Inr ''0x7c''),
     getDiffFromStorage = (\<lambda>src proxy a b. Inr [(slot_key (CHR ''1''), word_of ''2b'', word_of ''2a'')]),
     getDiffFromProof = (\<lambda>src a b. Inr [(slot_key (CHR ''1''), word_of ''2b'', word_of ''2a'')]),
     getDiffFromSrcContractTxs = (\<lambda>src a b. Inr [(slot_key (CHR ''1''), word_of ''2b'', word_of ''2a'')]) \<rparr>"

text \<open>
  The engine after \<^verbatim>\<open>init()\<close> with a source address only; the same before \<^verbatim>\<open>init()\<close>;
  after its proxy was deployed; and after the migration.
\<close>

definition fresh_engine :: chainProxy where
  "fresh_engine = \<lparr>
     initialized = True, migrationState = False, srcContractAddress = src_contract,
     logicContractAddress = None, relayContract = None, proxyContract = None,
     proxyContractAddress = None, batchSize = 50, srcBlock = Tag ''latest'',
     targetBlock = Tag ''latest'' \<rparr>"

definition uninitialized_engine :: chainProxy where
  "uninitialized_engine = fresh_engine\<lparr>initialized := False\<rparr>"

definition deployed_engine :: chainProxy where
  "deployed_engine = fresh_engine
     \<lparr>logicContractAddress := Some logic_address, relayContract := Some relay_address,
      proxyContract := Some proxy_address\<rparr>"

definition migrated_engine :: chainProxy where
  "migrated_engine = deployed_engine\<lparr>migrationState := True\<rparr>"

section \<open>The addStorage calls of a migration\<close>

text \<open>
  Chunk \<open>i\<close> of a list: its elements \<open>100 i\<close> to \<open>100 i + 99\<close>. A list of \<open>n\<close> elements
  has \<open>\<lceil>n / 100\<rceil>\<close> chunks.
\<close>

definition chunk_at :: "'a list \<Rightarrow> nat \<Rightarrow> 'a list" where
  "chunk_at xs i = take 100 (drop (100 * i) xs)"

definition chunk_count :: "nat \<Rightarrow> nat" where
  "chunk_count n = (n + 99) div 100"

text \<open>One \<^verbatim>\<open>addStorage\<close> call for each chunk of the keys, with the same chunk of the values.\<close>

definition chunk_calls :: "string list \<Rightarrow> string list \<Rightarrow> rpc_call list" where
  "chunk_calls ks vs =
     map (\<lambda>i. Proxy_addStorage (chunk_at ks i) (chunk_at vs i)) [0..<chunk_count (length ks)]"

fun is_addStorage :: "rpc_call \<Rightarrow> bool" where
  "is_addStorage (Proxy_addStorage ks vs) = True"
| "is_addStorage other = False"

fun is_awaited :: "rpc_call \<Rightarrow> bool" where
  "is_awaited (Awaited n) = True"
| "is_awaited other = False"

text \<open>
  The largest number of \<^verbatim>\<open>addStorage\<close> calls pending at once while \<open>calls\<close> are issued,
  starting from \<open>pending\<close> of them: a call adds one, an await leaves none.
\<close>

fun peak_pending :: "nat \<Rightarrow> rpc_call list \<Rightarrow> nat" where
  "peak_pending pending [] = pending"
| "peak_pending pending (Proxy_addStorage ks vs # calls) = peak_pending (Suc pending) calls"
| "peak_pending pending (Awaited n # calls) = max pending (peak_pending 0 calls)"
| "peak_pending pending (other # calls) = peak_pending pending calls"

text \<open>An \<^verbatim>\<open>addStorage\<close> call that was answered with a transaction.\<close>

definition sent :: "js_error + string option \<Rightarrow> bool" where
  "sent answer = (case answer of Inr (Some tx) \<Rightarrow> True | _ \<Rightarrow> False)"

definition dispatches :: "rpc_call \<Rightarrow> bool" where
  "dispatches e = (is_addStorage e \<or> is_awaited e)"

text \<open>An operation that issues no \<^verbatim>\<open>addStorage\<close> call and awaits none.\<close>

definition no_dispatch :: "'a action \<Rightarrow> bool" where
  "no_dispatch m = (\<forall>s. \<exists>calls. snd (snd (m s)) = snd s @ calls \<and> filter dispatches calls = [])"

text \<open>The calls that only read a block number.\<close>

fun reads_block_number :: "rpc_call \<Rightarrow> bool" where
  "reads_block_number (Relay_getCurrentBlockNumber proxy) = True"
| "reads_block_number (Src_toBlockNumber b) = True"
| "reads_block_number other = False"

section \<open>What a proof payload proves\<close>

text \<open>
  The account proof of the payload verifies against the state root the relay stores for
  \<open>blockHash\<close>, on the path of the relay's source address.
\<close>

definition account_verified :: "'r libraries \<Rightarrow> 'r \<Rightarrow> bytes \<Rightarrow> 256 word \<Rightarrow> bool" where
  "account_verified L relay proof blockHash =
     (case parseProof L proof of
        None \<Rightarrow> False
      | Some getProof \<Rightarrow>
          verifyProof L (gp_account getProof) (gp_accountProof getProof)
            (encodedAddress L (getSource L relay)) (getStateRoot L relay blockHash))"

text \<open>The storage proofs of the payload, item by item (\<open>None\<close>: an item that does not parse).\<close>

definition storage_proofs_of :: "'r libraries \<Rightarrow> bytes \<Rightarrow> parsedStorageProof option list" where
  "storage_proofs_of L proof =
     (case parseProof L proof of
        None \<Rightarrow> []
      | Some getProof \<Rightarrow>
          (case rlpList L (gp_storageProofs getProof) of
             None \<Rightarrow> []
           | Some items \<Rightarrow> map (parseStorageProof L) items))"

text \<open>A storage proof verifies against the \<open>storageHash\<close> of the account of the payload.\<close>

definition storage_verified :: "'r libraries \<Rightarrow> bytes \<Rightarrow> parsedStorageProof \<Rightarrow> bool" where
  "storage_verified L proof sp =
     (case parseProof L proof of
        None \<Rightarrow> False
      | Some getProof \<Rightarrow>
          (case parseAccount L (gp_account getProof) of
             None \<Rightarrow> False
           | Some account \<Rightarrow>
               mpp_verify L (sp_value sp) (triePath L (sp_key sp)) (sp_proof sp) (acc_storageHash account)))"

fun is_reverted :: "'r tx_result \<Rightarrow> bool" where
  "is_reverted (Reverted reason) = True"
| "is_reverted (Succeeded storage relay) = False"

text \<open>
  A target chain for the scenario: the relay stores one state root per block; a proof
  and a path are byte strings, and a proof verifies when it is the path followed by the
  bytes of the root.
\<close>

definition toy_libraries :: "(256 word \<Rightarrow> bytes32) libraries" where
  "toy_libraries = \<lparr>
     getStateRoot = (\<lambda>relay blockHash. relay blockHash),
     getSource = (\<lambda>relay. 10),
     setCurrentStateBlock = (\<lambda>relay blockHash. Some relay),
     encodedAddress = (\<lambda>a. [ucast a]),
     parseProof = (\<lambda>b. case b of
         [a, p, s] \<Rightarrow> Some \<lparr>gp_account = [a], gp_accountProof = [p], gp_storageProofs = [s]\<rparr>
       | _ \<Rightarrow> None),
     verifyProof = (\<lambda>account accountProof path root. accountProof = [ucast root]),
     parseAccount = (\<lambda>b. Some \<lparr>acc_nonce = 0, acc_balance = 0, acc_storageHash = 7, acc_codeHash = 0\<rparr>),
     rlpList = (\<lambda>b. Some (map (\<lambda>x. [x]) b)),
     parseStorageProof = (\<lambda>b. case b of
         [k] \<Rightarrow> Some \<lparr>sp_key = ucast k, sp_value = [k + 1], sp_proof = [7]\<rparr>
       | _ \<Rightarrow> None),
     triePath = (\<lambda>k. [ucast k]),
     mpp_verify = (\<lambda>v path proof root. proof = [ucast root]),
     toUint = (\<lambda>b. case b of [v] \<Rightarrow> Some (ucast v) | _ \<Rightarrow> None) \<rparr>"

definition toy_relay :: "256 word \<Rightarrow> bytes32" where
  "toy_relay = (\<lambda>blockHash. if blockHash = 20 then 99 else 0)"

section \<open>Properties of TransactionHandler\<close>

lemma last_of_snoc: "last_of (vs @ [v]) = Some v"
  by (simp add: last_of_def)

lemma last_of_Nil: "last_of [] = None"
  by (simp add: last_of_def)

lemma last_of_append:
  "last_of (xs @ ys) = (case last_of ys of None \<Rightarrow> last_of xs | Some v \<Rightarrow> Some v)"
  by (simp add: last_of_def)

lemma replay_key_lookup:
  "map_of (replay_key obj entry) k =
     (if fst entry = k then (case new_value (snd entry) of None \<Rightarrow> map_of obj k | Some v \<Rightarrow> Some v)
      else map_of obj k)"
  by (simp add: replay_key_def new_value_def update_conv' split: option.splits)

lemma foldl_replay_key_lookup:
  "map_of (foldl replay_key obj txStorage) k =
     (case last_of (values_reported txStorage k) of None \<Rightarrow> map_of obj k | Some v \<Rightarrow> Some v)"
proof (induction txStorage rule: rev_induct)
  case Nil
  show ?case by (simp add: values_reported_def map_filter_simps last_of_Nil)
next
  case (snoc entry es)
  show ?case
  proof (cases "fst entry = k \<and> new_value (snd entry) \<noteq> None")
    case True
    then obtain v where v: "new_value (snd entry) = Some v" by auto
    with True have "values_reported (es @ [entry]) k = values_reported es k @ [v]"
      by (simp add: values_reported_def map_filter_def)
    with True v show ?thesis by (simp add: replay_key_lookup last_of_snoc)
  next
    case False
    then have "values_reported (es @ [entry]) k = values_reported es k"
      by (auto simp add: values_reported_def map_filter_def)
    with False snoc show ?thesis by (auto simp add: replay_key_lookup)
  qed
qed

lemma store_entry_lookup:
  "map_of (store_entry cs entry) k =
     (if fst entry = k \<and> \<not> matches_zero_key k then Some (snd entry) else map_of cs k)"
  by (auto simp add: store_entry_def update_conv')

lemma foldl_store_entry_lookup:
  "map_of (foldl store_entry cs entries) k =
     (if matches_zero_key k then map_of cs k
      else (case last_of (map snd (filter (\<lambda>e. fst e = k) entries)) of
              None \<Rightarrow> map_of cs k | Some v \<Rightarrow> Some v))"
  by (induction entries rule: rev_induct) (auto simp add: store_entry_lookup last_of_snoc last_of_Nil)

lemma foldl_store_storage_lookup:
  "map_of (foldl store_storage cs txStorages) k =
     (if matches_zero_key k then map_of cs k
      else (case last_of (values_replayed txStorages k) of
              None \<Rightarrow> map_of cs k | Some v \<Rightarrow> Some v))"
proof (induction txStorages rule: rev_induct)
  case Nil
  show ?case by (simp add: values_replayed_def last_of_Nil)
next
  case (snoc s ss)
  have split: "values_replayed (ss @ [s]) k =
      values_replayed ss k @
        (case s of None \<Rightarrow> [] | Some entries \<Rightarrow> map snd (filter (\<lambda>e. fst e = k) entries))"
    by (simp add: values_replayed_def)
  show ?case
  proof (cases s)
    case None
    with snoc split show ?thesis by (simp add: store_storage_def)
  next
    case (Some entries)
    with snoc split show ?thesis
      by (simp add: store_storage_def foldl_store_entry_lookup last_of_append split: option.splits)
  qed
qed

text \<open>
  With fewer transactions than the batch size, the replay loop hands nothing to the final
  loop, and the collected storage is empty.
\<close>

lemma replay_loop_below_batch:
  "int (length txStoragePromises + length txs) < batch \<Longrightarrow>
     replay_loop p address batch txs txStoragePromises txStorages = txStorages"
proof (induction p address batch txs txStoragePromises txStorages rule: replay_loop.induct)
  case (1 p address batch txs txStoragePromises txStorages)
  note step = replay_loop.simps [of p address batch txs txStoragePromises txStorages]
  show ?case
  proof (cases "txs = []")
    case True
    show ?thesis unfolding step using True by simp
  next
    case False
    then have pos: "1 \<le> int (length txs)"
      by (cases txs) simp_all
    from False have shorter: "int (length (butlast txs)) = int (length txs) - 1"
      by (cases txs rule: rev_cases) simp_all
    from "1.prems" have room: "int (length txStoragePromises) + int (length txs) < batch"
      by simp
    show ?thesis
    proof (cases "last txs = []")
      case True
      from room shorter have "int (length txStoragePromises + length (butlast txs)) < batch"
        by simp
      with "1.IH"(3) False True
      have "replay_loop p address batch (butlast txs) txStoragePromises txStorages = txStorages"
        by simp
      with False True show ?thesis by (simp add: step)
    next
      case nonempty: False
      let ?tp' = "txStoragePromises @ [replayTransaction p address (last txs)]"
      have longer: "int (length ?tp') = int (length txStoragePromises) + 1"
        by simp
      from room pos longer have part: "\<not> batch \<le> int (length ?tp')"
        by linarith
      from room shorter longer have "int (length ?tp' + length (butlast txs)) < batch"
        by simp
      with "1.IH"(2) False nonempty part
      have "replay_loop p address batch (butlast txs) ?tp' txStorages = txStorages"
        by simp
      with False nonempty part show ?thesis by (simp add: step)
    qed
  qed
qed

lemma few_transactions_collect_nothing:
  "getTransactions p address batch latest earliest = Returned txs \<Longrightarrow> int (length txs) < batch \<Longrightarrow>
     getContractStorageFromTxs p address batch latest earliest = Returned []"
  by (simp add: getContractStorageFromTxs_def replay_loop_below_batch)

text \<open>
  Claim C1 (what the code does at the scenario of the specification). Over the ten blocks,
  with the default batch size 50, \<^verbatim>\<open>getTransactions\<close> finds the three transactions of the
  contract, and their replays touch slots 1 and 2; but three promises never fill a batch
  of 50, nothing is awaited after the loop, and the collected storage is empty. With a
  batch size of 2 the array of promises is awaited at the second and again at the third
  transaction without being emptied, so the three replays contribute five storages.
\<close>

theorem getContractStorageFromTxs_drops_partial_batch:
  "getTransactions ten_block_node src_contract 50 (Num 10) (Some (Num 1))
     = Returned [''0xt8'', ''0xt5'', ''0xt3'']
   \<and> replayTransaction ten_block_node src_contract ''0xt3''
     = Some [(slot_key (CHR ''1''), word_of ''2a'')]
   \<and> replayTransaction ten_block_node src_contract ''0xt5''
     = Some [(slot_key (CHR ''1''), word_of ''2b''), (slot_key (CHR ''2''), word_of ''07'')]
   \<and> replayTransaction ten_block_node src_contract ''0xt8''
     = Some [(slot_key (CHR ''2''), word_of [])]
   \<and> getContractStorageFromTxs ten_block_node src_contract 50 (Num 10) (Some (Num 1)) = Returned []
   \<and> length (replay_loop ten_block_node src_contract 2 [''0xt8'', ''0xt5'', ''0xt3''] [] []) = 5"
  by code_simp

text \<open>
  Claim C5, as stated, fails: a transaction sets slot 0 to zero; with a batch size of 1
  its replay reaches the final loop, where the key matches \<^verbatim>\<open>/0x0{64}/\<close> and is left out.
\<close>

theorem slot_zero_not_emitted:
  "replayTransaction slot0_node src_contract ''0xt1'' = Some [(slot_key (CHR ''0''), word_of [])]
   \<and> getContractStorageFromTxs slot0_node src_contract 1 (Num 1) (Some (Num 1)) = Returned []"
  by code_simp

text \<open>
  Claim C5, amended. \<^verbatim>\<open>replayTransaction\<close> keeps every key of the contract's \<^verbatim>\<open>storage\<close>
  object that reports a new value (the \<^verbatim>\<open>to\<close> of \<^verbatim>\<open>'*'\<close>, or \<^verbatim>\<open>'+'\<close>), with the value
  reported last, whatever that value is. The final loop of \<^verbatim>\<open>getContractStorageFromTxs\<close>
  emits, for the storages \<open>txStorages\<close> it is given, every key that does not match
  \<^verbatim>\<open>/0x0{64}/\<close> with the value written last, whatever that value is: an all-zero value is
  emitted like any other. A key that matches \<^verbatim>\<open>/0x0{64}/\<close> (slot 0) is never emitted.
\<close>

theorem srcTx_values_not_filtered:
  "(trace_replayTransaction p tx = Inr stateDiff \<and> map_of stateDiff (toLowerCase address) = Some txStorage
      \<longrightarrow> (\<exists>obj. replayTransaction p address tx = Some obj
             \<and> map_of obj k = last_of (values_reported txStorage k)))
   \<and> map_of (foldl store_storage [] txStorages) k =
       (if matches_zero_key k then None else last_of (values_replayed txStorages k))"
proof -
  have "map_of (foldl replay_key [] txStorage) k = last_of (values_reported txStorage k)"
    by (simp add: foldl_replay_key_lookup last_of_Nil split: option.splits)
  moreover have "map_of (foldl store_storage [] txStorages) k =
       (if matches_zero_key k then None else last_of (values_replayed txStorages k))"
    by (simp add: foldl_store_storage_lookup last_of_Nil split: option.splits)
  ultimately show ?thesis
    by (simp add: replayTransaction_def)
qed

theorem srcTx_values_not_filtered_witness:
  "(\<exists>obj. replayTransaction ten_block_node src_contract ''0xt8'' = Some obj
       \<and> map_of obj (slot_key (CHR ''2'')) = Some (word_of []))
   \<and> map_of (foldl store_storage []
         [replayTransaction ten_block_node src_contract ''0xt5'',
          replayTransaction ten_block_node src_contract ''0xt8'']) (slot_key (CHR ''2''))
       = Some (word_of [])"
proof -
  let ?sd = "[(toLowerCase src_contract, [modifies (slot_key (CHR ''2'')) (word_of [])])]"
  let ?st = "[modifies (slot_key (CHR ''2'')) (word_of [])]"
  let ?ss = "[replayTransaction ten_block_node src_contract ''0xt5'',
          replayTransaction ten_block_node src_contract ''0xt8'']"
  have h1: "trace_replayTransaction ten_block_node ''0xt8'' = Inr ?sd"
    by code_simp
  have h2: "map_of ?sd (toLowerCase src_contract) = Some ?st"
    by simp
  have v1: "last_of (values_reported ?st (slot_key (CHR ''2''))) = Some (word_of [])"
    by code_simp
  have v2: "last_of (values_replayed ?ss (slot_key (CHR ''2''))) = Some (word_of [])"
    by code_simp
  have nz: "\<not> matches_zero_key (slot_key (CHR ''2''))"
    by code_simp
  from srcTx_values_not_filtered [of ten_block_node "''0xt8''" ?sd src_contract ?st
      "slot_key (CHR ''2'')" ?ss] h1 h2 v1 v2 nz
  show ?thesis by simp
qed


lemma await_Returned: "await x = Returned v \<longleftrightarrow> x = Inr v"
  by (cases x) auto
















section \<open>Properties of ChainProxy\<close>

lemma chunk_count_0: "chunk_count 0 = 0"
  by (simp add: chunk_count_def)

lemma chunk_count_step: "0 < n \<Longrightarrow> chunk_count n = Suc (chunk_count (n - 100))"
  unfolding chunk_count_def by (cases "n < 100") (simp_all add: le_div_geq)

lemma chunk_at_0: "chunk_at xs 0 = take 100 xs"
  by (simp add: chunk_at_def)

lemma chunk_at_Suc: "chunk_at xs (Suc i) = chunk_at (drop 100 xs) i"
  by (simp add: chunk_at_def add.commute)

lemma chunk_calls_step:
  assumes "ks \<noteq> []"
  shows "chunk_calls ks vs = Proxy_addStorage (take 100 ks) (take 100 vs) # chunk_calls (drop 100 ks) (drop 100 vs)"
proof -
  from assms have n: "chunk_count (length ks) = Suc (chunk_count (length (drop 100 ks)))"
    by (simp add: chunk_count_step)
  have "[0..<Suc (chunk_count (length (drop 100 ks)))] = 0 # map Suc [0..<chunk_count (length (drop 100 ks))]"
    by (simp add: upt_conv_Cons map_Suc_upt del: upt_Suc)
  with n show ?thesis
    by (simp add: chunk_calls_def chunk_at_0 chunk_at_Suc comp_def del: upt_Suc)
qed

lemma chunk_calls_Nil: "chunk_calls [] vs = []"
  by (simp add: chunk_calls_def chunk_count_0)

lemma awaitAll_sent:
  "list_all sent answers \<Longrightarrow>
     \<exists>rs. awaitAll answers = Inr rs \<and> length rs = length answers \<and> \<not> list_ex Option.is_none rs"
proof (induction answers)
  case Nil
  then show ?case by simp
next
  case (Cons a answers)
  then obtain tx where "a = Inr (Some tx)"
    by (auto simp add: sent_def split: sum.splits option.splits)
  with Cons show ?case by auto
qed

lemma pending_le_peak: "pending \<le> peak_pending pending calls"
proof (induction calls arbitrary: pending)
  case Nil
  then show ?case by simp
next
  case (Cons e calls)
  show ?case
  proof (cases e)
    case (Proxy_addStorage ks vs)
    with Cons [of "Suc pending"] show ?thesis by simp
  qed (use Cons in simp_all)
qed

lemma addStorage_loop_calls:
  assumes ok: "\<And>ks vs. sent (proxy_addStorage c proxy ks vs)"
      and batch: "1 \<le> batch"
  shows "int (length storageAdds) < batch \<Longrightarrow> list_all sent storageAdds \<Longrightarrow>
         \<exists>adds txs' calls.
            addStorage_loop c (Some proxy) batch proxyKeys proxyValues storageAdds txs log
              = (Returned (adds, txs'), log @ calls)
          \<and> filter is_addStorage calls = chunk_calls proxyKeys proxyValues
          \<and> peak_pending (length storageAdds) calls \<le> nat batch
          \<and> list_all sent adds
          \<and> length txs' + length adds = length txs + length storageAdds + chunk_count (length proxyKeys)
          \<and> (\<not> list_ex Option.is_none txs \<longrightarrow> \<not> list_ex Option.is_none txs')"
proof (induction "length proxyKeys" arbitrary: proxyKeys proxyValues storageAdds txs log rule: less_induct)
  case less
  note step = addStorage_loop.simps [of c "Some proxy" batch proxyKeys proxyValues storageAdds txs log]
  show ?case
  proof (cases "proxyKeys = []")
    case True
    have "addStorage_loop c (Some proxy) batch proxyKeys proxyValues storageAdds txs log
            = (Returned (storageAdds, txs), log @ [])"
      unfolding step using True by simp
    moreover have "filter is_addStorage [] = chunk_calls proxyKeys proxyValues"
      using True by (simp add: chunk_calls_Nil)
    moreover have "peak_pending (length storageAdds) [] \<le> nat batch"
      using less.prems by simp
    moreover have "length txs + length storageAdds
            = length txs + length storageAdds + chunk_count (length proxyKeys)"
      using True by (simp add: chunk_count_0)
    ultimately show ?thesis using less.prems(2) by blast
  next
    case False
    let ?keys = "take 100 proxyKeys" and ?vals = "take 100 proxyValues"
    let ?restKeys = "drop 100 proxyKeys" and ?restValues = "drop 100 proxyValues"
    let ?adds' = "storageAdds @ [proxy_addStorage c proxy ?keys ?vals]"
    let ?log' = "log @ [Proxy_addStorage ?keys ?vals]"
    from False have shorter: "length ?restKeys < length proxyKeys" by simp
    from less.prems ok have sent': "list_all sent ?adds'" by simp
    note calls = chunk_calls_step [OF False, of proxyValues]
    from False have count: "chunk_count (length proxyKeys) = Suc (chunk_count (length ?restKeys))"
      by (simp add: chunk_count_step)
    show ?thesis
    proof (cases "batch \<le> int (length ?adds')")
      case full: True
      from awaitAll_sent [OF sent'] obtain rs where
        rs: "awaitAll ?adds' = Inr rs" "length rs = length ?adds'" "\<not> list_ex Option.is_none rs"
        by blast
      from batch have empty: "int (length ([] :: (js_error + string option) list)) < batch" by simp
      from less.hyps [OF shorter empty, of ?restValues "txs @ rs" "?log' @ [Awaited (length ?adds')]"]
      obtain adds txs' calls where
        run: "addStorage_loop c (Some proxy) batch ?restKeys ?restValues [] (txs @ rs) (?log' @ [Awaited (length ?adds')])
                = (Returned (adds, txs'), (?log' @ [Awaited (length ?adds')]) @ calls)" and
        adds: "filter is_addStorage calls = chunk_calls ?restKeys ?restValues" and
        peak: "peak_pending 0 calls \<le> nat batch" and
        sent_adds: "list_all sent adds" and
        len: "length txs' + length adds = length (txs @ rs) + 0 + chunk_count (length ?restKeys)" and
        some: "\<not> list_ex Option.is_none (txs @ rs) \<longrightarrow> \<not> list_ex Option.is_none txs'"
        by auto
      let ?calls = "Proxy_addStorage ?keys ?vals # Awaited (length ?adds') # calls"
      from False full rs run
      have "addStorage_loop c (Some proxy) batch proxyKeys proxyValues storageAdds txs log
              = (Returned (adds, txs'), log @ ?calls)"
        by (simp add: step KEY_VALUE_PAIR_PER_BATCH_def Let_def)
      moreover from adds calls have "filter is_addStorage ?calls = chunk_calls proxyKeys proxyValues"
        by simp
      moreover from peak less.prems(1) have "peak_pending (length storageAdds) ?calls \<le> nat batch"
        by simp
      moreover from len rs(2) count
      have "length txs' + length adds = length txs + length storageAdds + chunk_count (length proxyKeys)"
        by simp
      moreover from some rs(3) have "\<not> list_ex Option.is_none txs \<longrightarrow> \<not> list_ex Option.is_none txs'"
        by (auto simp add: list_ex_iff)
      ultimately show ?thesis using sent_adds by blast
    next
      case part: False
      then have room: "int (length ?adds') < batch" by simp
      from less.hyps [OF shorter room sent', of ?restValues txs ?log']
      obtain adds txs' calls where
        run: "addStorage_loop c (Some proxy) batch ?restKeys ?restValues ?adds' txs ?log'
                = (Returned (adds, txs'), ?log' @ calls)" and
        adds: "filter is_addStorage calls = chunk_calls ?restKeys ?restValues" and
        peak: "peak_pending (length ?adds') calls \<le> nat batch" and
        sent_adds: "list_all sent adds" and
        len: "length txs' + length adds = length txs + length ?adds' + chunk_count (length ?restKeys)" and
        some: "\<not> list_ex Option.is_none txs \<longrightarrow> \<not> list_ex Option.is_none txs'"
        by auto
      let ?calls = "Proxy_addStorage ?keys ?vals # calls"
      from False part run
      have "addStorage_loop c (Some proxy) batch proxyKeys proxyValues storageAdds txs log
              = (Returned (adds, txs'), log @ ?calls)"
        by (simp add: step KEY_VALUE_PAIR_PER_BATCH_def Let_def)
      moreover from adds calls have "filter is_addStorage ?calls = chunk_calls proxyKeys proxyValues"
        by simp
      moreover from peak have "peak_pending (length storageAdds) ?calls \<le> nat batch"
        by simp
      moreover from len count
      have "length txs' + length adds = length txs + length storageAdds + chunk_count (length proxyKeys)"
        by simp
      ultimately show ?thesis using sent_adds some by blast
    qed
  qed
qed


lemma no_dispatch_ret: "no_dispatch (ret v)"
  by (simp add: no_dispatch_def ret_def)

lemma no_dispatch_reject: "no_dispatch (reject e)"
  by (simp add: no_dispatch_def reject_def)

lemma no_dispatch_this: "no_dispatch this_engine"
  by (simp add: no_dispatch_def this_engine_def split: prod.splits)

lemma no_dispatch_assign: "no_dispatch (assign f)"
  by (simp add: no_dispatch_def assign_def split: prod.splits)

lemma no_dispatch_awaitA: "no_dispatch (awaitA answer)"
  by (simp add: no_dispatch_def awaitA_def)

lemma no_dispatch_attached: "no_dispatch (attached contract)"
  by (cases contract) (simp_all add: attached_def no_dispatch_reject no_dispatch_ret)

lemma no_dispatch_call: "\<not> dispatches e \<Longrightarrow> no_dispatch (call e answer)"
  by (simp add: no_dispatch_def call_def split: prod.splits)

lemma no_dispatch_bindA:
  assumes "no_dispatch m" and "\<And>a. no_dispatch (f a)"
  shows "no_dispatch (bindA m f)"
  unfolding no_dispatch_def
proof
  fix s
  obtain r s' where ms: "m s = (r, s')" by (cases "m s")
  from assms(1) ms obtain calls where c1: "snd s' = snd s @ calls" "filter dispatches calls = []"
    unfolding no_dispatch_def by (metis snd_conv)
  show "\<exists>calls. snd (snd (bindA m f s)) = snd s @ calls \<and> filter dispatches calls = []"
  proof (cases r)
    case (Returned a)
    from assms(2) [of a] obtain calls' where
      c2: "snd (snd (f a s')) = snd s' @ calls'" "filter dispatches calls' = []"
      unfolding no_dispatch_def by blast
    from Returned ms c1 c2 have "snd (snd (bindA m f s)) = snd s @ (calls @ calls')"
      by (simp add: bindA_def)
    with c1 c2 show ?thesis by (metis filter_append append_Nil)
  next
    case (Rejected e)
    with ms c1 show ?thesis by (auto simp add: bindA_def)
  next
    case ProcessExit
    with ms c1 show ?thesis by (auto simp add: bindA_def)
  qed
qed

lemma no_dispatch_tryCatch:
  assumes "no_dispatch m" and "\<And>e. no_dispatch (handler e)"
  shows "no_dispatch (tryCatch m handler)"
  unfolding no_dispatch_def
proof
  fix s
  obtain r s' where ms: "m s = (r, s')" by (cases "m s")
  from assms(1) ms obtain calls where c1: "snd s' = snd s @ calls" "filter dispatches calls = []"
    unfolding no_dispatch_def by (metis snd_conv)
  show "\<exists>calls. snd (snd (tryCatch m handler s)) = snd s @ calls \<and> filter dispatches calls = []"
  proof (cases r)
    case (Rejected e)
    from assms(2) [of e] obtain calls' where
      c2: "snd (snd (handler e s')) = snd s' @ calls'" "filter dispatches calls' = []"
      unfolding no_dispatch_def by blast
    from Rejected ms c1 c2 have "snd (snd (tryCatch m handler s)) = snd s @ (calls @ calls')"
      by (simp add: tryCatch_def)
    with c1 c2 show ?thesis by (metis filter_append append_Nil)
  next
    case (Returned a)
    with ms c1 show ?thesis by (auto simp add: tryCatch_def)
  next
    case ProcessExit
    with ms c1 show ?thesis by (auto simp add: tryCatch_def)
  qed
qed

lemma no_dispatch_wait_for_receipts: "no_dispatch (wait_for_receipts c txs)"
  by (simp add: no_dispatch_def wait_for_receipts_def dispatches_def filter_empty_conv split: prod.splits)

lemma no_dispatch_validate_migration:
  "no_dispatch (validate_migration c initialValuesProof stateRoot blockNumber thisProxy txs)"
  unfolding validate_migration_def Let_def
  by (intro no_dispatch_bindA no_dispatch_tryCatch no_dispatch_call no_dispatch_wait_for_receipts
            no_dispatch_this no_dispatch_awaitA no_dispatch_attached no_dispatch_assign no_dispatch_ret)
     (auto simp add: dispatches_def no_dispatch_ret no_dispatch_reject no_dispatch_awaitA
           no_dispatch_attached no_dispatch_assign no_dispatch_this
        split: option.splits intro!: no_dispatch_bindA no_dispatch_tryCatch no_dispatch_call)


lemma peak_pending_quiet: "filter dispatches calls = [] \<Longrightarrow> peak_pending pending calls = pending"
proof (induction calls arbitrary: pending)
  case Nil
  show ?case by simp
next
  case (Cons e calls)
  then show ?case by (cases e) (simp_all add: dispatches_def split: if_splits)
qed

lemma peak_pending_append_quiet:
  "filter dispatches later = [] \<Longrightarrow> peak_pending pending (calls @ later) = peak_pending pending calls"
proof (induction calls arbitrary: pending)
  case Nil
  then show ?case by (simp add: peak_pending_quiet)
next
  case (Cons e calls)
  then show ?case by (cases e) simp_all
qed

lemma peak_pending_append_Awaited:
  "peak_pending pending (calls @ [Awaited n]) = peak_pending pending calls"
proof (induction calls arbitrary: pending)
  case Nil
  show ?case by simp
next
  case (Cons e calls)
  then show ?case by (cases e) simp_all
qed

lemma send_storage_calls:
  assumes ok: "\<And>ks vs. sent (proxy_addStorage c proxy ks vs)"
      and batch: "1 \<le> batch"
  shows "\<exists>txs calls.
            send_storage c (Some proxy) batch proxyKeys proxyValues (this, log) = (Returned txs, this, log @ calls)
          \<and> filter is_addStorage calls = chunk_calls proxyKeys proxyValues
          \<and> length txs = chunk_count (length proxyKeys)
          \<and> peak_pending 0 calls \<le> nat batch"
proof -
  from batch have "int (length ([] :: (js_error + string option) list)) < batch" by simp
  from addStorage_loop_calls [OF ok batch this, of proxyKeys proxyValues "[]" log]
  obtain adds txs' calls where
    run: "addStorage_loop c (Some proxy) batch proxyKeys proxyValues [] [] log = (Returned (adds, txs'), log @ calls)" and
    adds: "filter is_addStorage calls = chunk_calls proxyKeys proxyValues" and
    peak: "peak_pending 0 calls \<le> nat batch" and
    sent_adds: "list_all sent adds" and
    len: "length txs' + length adds = chunk_count (length proxyKeys)"
    by auto
  from awaitAll_sent [OF sent_adds] obtain rs where
    rs: "awaitAll adds = Inr rs" "length rs = length adds" "\<not> list_ex Option.is_none rs"
    by blast
  let ?calls = "calls @ [Awaited (length adds)]"
  from run rs have "send_storage c (Some proxy) batch proxyKeys proxyValues (this, log)
      = (Returned (map the (txs' @ rs)), this, log @ ?calls)"
    by (simp add: send_storage_def)
  moreover from adds have "filter is_addStorage ?calls = chunk_calls proxyKeys proxyValues"
    by simp
  moreover from len rs(2) have "length (map the (txs' @ rs)) = chunk_count (length proxyKeys)"
    by simp
  moreover from peak have "peak_pending 0 ?calls \<le> nat batch"
    by (simp add: peak_pending_append_Awaited)
  ultimately show ?thesis by blast
qed

lemma length_chunk_calls: "length (chunk_calls ks vs) = (length ks + 99) div 100"
  by (simp add: chunk_calls_def chunk_count_def)

lemma full_chunks:
  assumes "i < length xs div 100"
  shows "length (chunk_at xs i) = 100"
proof -
  from assms have "Suc i \<le> length xs div 100" by simp
  then have "100 * Suc i \<le> 100 * (length xs div 100)" by (rule mult_le_mono2)
  also have "\<dots> \<le> length xs" by simp
  finally show ?thesis by (simp add: chunk_at_def)
qed

text \<open>
  Claim C4, as stated, fails: the contract has no code at block 5 (\<^verbatim>\<open>eth_getCode\<close> at
  block 5 answers \<^verbatim>\<open>0x\<close>), yet \<^verbatim>\<open>migrateSrcContract(5)\<close> returns true. Its first call
  is \<^verbatim>\<open>getCode\<close> with no block argument, which is answered with the code at the latest
  block.
\<close>

theorem migrateSrcContract_checks_code_at_default_block:
  "src_getCode two_chains src_contract (Some (Num 5)) = Inr ''0x''
   \<and> fst (migrateSrcContract two_chains (Num 5) (fresh_engine, [])) = Returned True
   \<and> hd (snd (snd (migrateSrcContract two_chains (Num 5) (fresh_engine, []))))
       = Src_getCode src_contract None"
  by code_simp

text \<open>
  Claim C4, amended. On an initialized engine whose source address is a valid address,
  \<^verbatim>\<open>migrateSrcContract(srcBlock)\<close> first asks for the code of the source address with no
  block argument (the provider's default block), whatever \<open>srcBlock\<close> is; when that call
  fails or the code it returns is empty (shorter than 3 characters, as \<^verbatim>\<open>0x\<close> is), the
  operation returns false and sends no other call.
\<close>

theorem migrateSrcContract_without_code:
  assumes "initialized this"
      and "isAddress c (srcContractAddress this)"
      and "isl (src_getCode c (srcContractAddress this) None)
           \<or> (\<exists>code. src_getCode c (srcContractAddress this) None = Inr code \<and> length code < 3)"
  shows "migrateSrcContract c fromBlock (this, log)
           = (Returned False, this, log @ [Src_getCode (srcContractAddress this) None])"
  using assms
  by (cases "src_getCode c (srcContractAddress this) None")
     (auto simp add: migrateSrcContract_def bindA_def this_engine_def ret_def tryCatch_def call_def)

theorem migrateSrcContract_without_code_witness:
  "migrateSrcContract (two_chains\<lparr>src_getCode := (\<lambda>a b. Inr ''0x'')\<rparr>) (Num 5) (fresh_engine, [])
     = (Returned False, fresh_engine, [Src_getCode src_contract None])"
proof -
  let ?c = "two_chains\<lparr>src_getCode := (\<lambda>a b. Inr ''0x'')\<rparr>"
  have h1: "initialized fresh_engine"
    by (simp add: fresh_engine_def)
  have h2: "isAddress ?c (srcContractAddress fresh_engine)"
    by (simp add: fresh_engine_def two_chains_def src_contract_def)
  have h3: "isl (src_getCode ?c (srcContractAddress fresh_engine) None)
           \<or> (\<exists>code. src_getCode ?c (srcContractAddress fresh_engine) None = Inr code \<and> length code < 3)"
    by simp
  have "srcContractAddress fresh_engine = src_contract"
    by (simp add: fresh_engine_def)
  with migrateSrcContract_without_code [OF h1 h2 h3, of "Num 5" "[]"] show ?thesis
    by simp
qed

text \<open>
  Claim C7. \<^verbatim>\<open>initialStorageMigration\<close>, on an engine whose proxy is attached, with a
  batch size \<open>B \<ge> 1\<close>, when every \<^verbatim>\<open>addStorage\<close> call is answered with a transaction: the
  \<^verbatim>\<open>addStorage\<close> calls it issues are exactly one per chunk of 100 key/value pairs, in
  order, which makes \<open>\<lceil>n / 100\<rceil>\<close> calls for the \<open>n\<close> entries of the proof; every chunk
  before position \<open>n div 100\<close> holds exactly 100 keys; and at no time are more than \<open>B\<close>
  of the calls pending.
\<close>

theorem initialStorageMigration_chunks:
  assumes proxy: "proxyContract this = Some proxy"
      and ok: "\<forall>ks vs. sent (proxy_addStorage c proxy ks vs)"
      and batch: "1 \<le> batchSize this"
  shows "\<exists>r this' calls.
            initialStorageMigration c initialValuesProof stateRoot blockNumber (this, log)
              = (r, this', log @ calls)
          \<and> filter is_addStorage calls
              = chunk_calls (map (\<lambda>entry. hexZeroPad32 c (fst entry)) (storageProof initialValuesProof))
                            (map (\<lambda>entry. hexZeroPad32 c (snd entry)) (storageProof initialValuesProof))
          \<and> length (filter is_addStorage calls) = (length (storageProof initialValuesProof) + 99) div 100
          \<and> (\<forall>i < length (storageProof initialValuesProof) div 100.
                length (chunk_at (map (\<lambda>entry. hexZeroPad32 c (fst entry))
                                   (storageProof initialValuesProof)) i) = 100)
          \<and> peak_pending 0 calls \<le> nat (batchSize this)"
proof -
  let ?keys = "map (\<lambda>entry. hexZeroPad32 c (fst entry)) (storageProof initialValuesProof)"
  let ?vals = "map (\<lambda>entry. hexZeroPad32 c (snd entry)) (storageProof initialValuesProof)"
  from ok have ok': "\<And>ks vs. sent (proxy_addStorage c proxy ks vs)" by simp
  from send_storage_calls [OF ok' batch, of ?keys ?vals this log]
  obtain txs calls1 where
    send: "send_storage c (Some proxy) (batchSize this) ?keys ?vals (this, log) = (Returned txs, this, log @ calls1)" and
    adds: "filter is_addStorage calls1 = chunk_calls ?keys ?vals" and
    peak: "peak_pending 0 calls1 \<le> nat (batchSize this)"
    by blast
  let ?validate = "validate_migration c initialValuesProof stateRoot blockNumber (Some proxy) txs"
  obtain r this' log' where v: "?validate (this, log @ calls1) = (r, this', log')"
    by (cases "?validate (this, log @ calls1)") auto
  from no_dispatch_validate_migration [of c initialValuesProof stateRoot blockNumber "Some proxy" txs] v
  obtain calls2 where
    log': "log' = (log @ calls1) @ calls2" and quiet: "filter dispatches calls2 = []"
    unfolding no_dispatch_def by (metis snd_conv)
  from quiet have quiet': "filter is_addStorage calls2 = []"
    by (auto simp add: filter_empty_conv dispatches_def)
  from proxy send v log'
  have "initialStorageMigration c initialValuesProof stateRoot blockNumber (this, log)
          = (r, this', log @ (calls1 @ calls2))"
    by (simp add: initialStorageMigration_def bindA_def this_engine_def attached_def ret_def Let_def)
  moreover from adds quiet' have all: "filter is_addStorage (calls1 @ calls2) = chunk_calls ?keys ?vals"
    by simp
  moreover from all have "length (filter is_addStorage (calls1 @ calls2))
      = (length (storageProof initialValuesProof) + 99) div 100"
    by (simp add: length_chunk_calls)
  moreover have "\<forall>i < length (storageProof initialValuesProof) div 100. length (chunk_at ?keys i) = 100"
    by (simp add: full_chunks)
  moreover from peak quiet have "peak_pending 0 (calls1 @ calls2) \<le> nat (batchSize this)"
    by (simp add: peak_pending_append_quiet)
  ultimately show ?thesis by blast
qed

theorem initialStorageMigration_chunks_witness:
  "\<exists>r this' calls.
      initialStorageMigration two_chains (proof_of (slots 250)) (word_of ''e5'') ''0x14'' (deployed_engine, [])
        = (r, this', calls)
    \<and> length (filter is_addStorage calls) = 3
    \<and> length (chunk_at (map (\<lambda>entry. hexZeroPad32 two_chains (fst entry))
                          (storageProof (proof_of (slots 250)))) 1) = 100
    \<and> peak_pending 0 calls \<le> 50"
proof -
  have h1: "proxyContract deployed_engine = Some proxy_address"
    by (simp add: deployed_engine_def)
  have h2: "\<forall>ks vs. sent (proxy_addStorage two_chains proxy_address ks vs)"
    by (simp add: two_chains_def sent_def)
  have h3: "1 \<le> batchSize deployed_engine"
    by (simp add: deployed_engine_def fresh_engine_def)
  have n: "length (storageProof (proof_of (slots 250))) = 250"
    by (simp add: proof_of_def slots_def)
  have b: "nat (batchSize deployed_engine) = 50"
    by (simp add: deployed_engine_def fresh_engine_def)
  from initialStorageMigration_chunks [OF h1 h2 h3, of "proof_of (slots 250)" "word_of ''e5''" "''0x14''" "[]"]
  obtain r this' calls where
    run: "initialStorageMigration two_chains (proof_of (slots 250)) (word_of ''e5'') ''0x14''
            (deployed_engine, []) = (r, this', [] @ calls)" and
    count: "length (filter is_addStorage calls) = (length (storageProof (proof_of (slots 250))) + 99) div 100" and
    full: "\<forall>i < length (storageProof (proof_of (slots 250))) div 100.
             length (chunk_at (map (\<lambda>entry. hexZeroPad32 two_chains (fst entry))
                                (storageProof (proof_of (slots 250)))) i) = 100" and
    peak: "peak_pending 0 calls \<le> nat (batchSize deployed_engine)"
    by blast
  from count n have "length (filter is_addStorage calls) = 3"
    by simp
  moreover from full n
  have "length (chunk_at (map (\<lambda>entry. hexZeroPad32 two_chains (fst entry))
                           (storageProof (proof_of (slots 250)))) 1) = 100"
    by simp
  moreover from peak b have "peak_pending 0 calls \<le> 50"
    by simp
  moreover from run have "initialStorageMigration two_chains (proof_of (slots 250)) (word_of ''e5'') ''0x14''
            (deployed_engine, []) = (r, this', calls)"
    by simp
  ultimately show ?thesis by blast
qed

text \<open>
  Claim C8. On an engine that is initialized and whose proxy is migrated (the state the
  operation requires), \<^verbatim>\<open>migrateChangesToProxy\<close> with an empty list of keys returns true
  for every target block argument, given or left out, and sends no call at all: no proof
  is fetched, nothing is sent to the relay or to the proxy, and the engine is unchanged.
\<close>

theorem migrateChangesToProxy_empty:
  assumes "initialized this" and "migrationState this"
  shows "migrateChangesToProxy c [] targetBlockArg (this, log) = (Returned True, this, log)"
  using assms
  by (simp add: migrateChangesToProxy_def bindA_def this_engine_def ret_def Let_def)

theorem migrateChangesToProxy_empty_witness:
  "migrateChangesToProxy two_chains [] (Some (Num 20)) (migrated_engine, []) = (Returned True, migrated_engine, [])
   \<and> migrateChangesToProxy two_chains [] None (migrated_engine, []) = (Returned True, migrated_engine, [])"
proof -
  have h1: "initialized migrated_engine"
    by (simp add: migrated_engine_def deployed_engine_def fresh_engine_def)
  have h2: "migrationState migrated_engine"
    by (simp add: migrated_engine_def)
  from migrateChangesToProxy_empty [OF h1 h2, of two_chains "Some (Num 20)" "[]"]
       migrateChangesToProxy_empty [OF h1 h2, of two_chains None "[]"]
  show ?thesis by simp
qed

text \<open>
  Claim C9, as stated, fails. With target block 0 given, \<^verbatim>\<open>if (targetBlock)\<close> does not
  hold: the two numbers are not compared and the differ is asked, so that with source
  block 15, above target block 0, the result is what the differ answers: a diff that is
  not empty, or the differ's failure. And when the relay reports \<open>2\<^sup>5\<^sup>3\<close> as synchronized,
  far above target block 10, \<^verbatim>\<open>toNumber()\<close> throws and \<^verbatim>\<open>getDiff\<close> is rejected.
\<close>

theorem getDiff_source_ahead_not_empty:
  "src_toBlockNumber two_chains (Num 0) = Inr 0
   \<and> getDiff two_chains GetProof \<lparr>param_srcBlock = Some (Num 15), param_targetBlock = Some (Num 0)\<rparr>
        (fresh_engine, [])
       = (Returned (Some [(slot_key (CHR ''1''), word_of ''2b'', word_of ''2a'')]), fresh_engine,
          [Differ_getDiffFromProof])
   \<and> getDiff (two_chains\<lparr>getDiffFromSrcContractTxs := (\<lambda>src a b. Inl (RpcFailure ''timeout''))\<rparr>) SrcTx
        \<lparr>param_srcBlock = Some (Num 15), param_targetBlock = Some (Num 0)\<rparr> (fresh_engine, [])
       = (Rejected (RpcFailure ''timeout''), fresh_engine, [Differ_getDiffFromSrcContractTxs])
   \<and> getDiff (two_chains\<lparr>relay_getCurrentBlockNumber := (\<lambda>relay proxy. Inr 9007199254740992)\<rparr>) SrcTx
        \<lparr>param_srcBlock = None, param_targetBlock = Some (Num 10)\<rparr> (migrated_engine, [])
       = (Rejected Overflow, migrated_engine, [Relay_getCurrentBlockNumber proxy_address])"
  by code_simp

text \<open>
  Claim C9, amended. On an initialized engine, for the strategies \<^verbatim>\<open>getProof\<close> and \<^verbatim>\<open>srcTx\<close>,
  with a target block that is given and is neither block 0 nor the empty tag (so that
  \<^verbatim>\<open>if (targetBlock)\<close> holds) and that the source provider resolves to the number
  \<open>target\<close>: let \<open>source\<close> be the block the diff would start from, which is the block after
  the one the relay reports as synchronized when a relay and a proxy are attached, and
  the number that \<^verbatim>\<open>BigNumber.from\<close> reads from \<^verbatim>\<open>parameters.srcBlock\<close> otherwise. Whenever
  \<open>source\<close> is greater than \<open>target\<close>, and both are numbers that \<^verbatim>\<open>BigNumber.from\<close> accepts
  (\<open>target\<close> is strictly between \<open>-(2\<^sup>5\<^sup>3 - 1)\<close> and \<open>2\<^sup>5\<^sup>3 - 1\<close>, and so is the block after
  the synchronized one), \<^verbatim>\<open>getDiff\<close> returns the empty \<^verbatim>\<open>StorageDiff\<close>, not an error; it
  leaves the engine as it is, has only read block numbers, and has not asked the differ.
\<close>

theorem getDiff_empty_when_ahead_in_range:
  assumes init: "initialized this"
      and how: "how = GetProof \<or> how = SrcTx"
      and given: "param_targetBlock parameters = Some toBlock" "truthy_block (Some toBlock)"
      and target: "src_toBlockNumber c toBlock = Inr target"
      and range: "- MAX_SAFE < target" "target < MAX_SAFE"
      and source:
        "(\<exists>relay proxy synced. relayContract this = Some relay \<and> proxyContract this = Some proxy
            \<and> relay_getCurrentBlockNumber c relay proxy = Inr synced \<and> source = synced + 1
            \<and> source < MAX_SAFE)
         \<or> ((relayContract this = None \<or> proxyContract this = None)
            \<and> bigNumberFrom c (param_srcBlock parameters) = Inr source)"
      and ahead: "target < source"
  shows "\<exists>calls. getDiff c how parameters (this, log) = (Returned (Some []), this, log @ calls)
           \<and> list_all reads_block_number calls"
proof -
  have sync: "\<exists>calls fromBlock.
      synchronized_srcBlock c (param_srcBlock parameters) (this, log) = (Returned fromBlock, this, log @ calls)
      \<and> bigNumberFrom c fromBlock = Inr source \<and> list_all reads_block_number calls"
  proof -
    from source consider
      (attached) relay proxy synced where
        "relayContract this = Some relay" "proxyContract this = Some proxy"
        "relay_getCurrentBlockNumber c relay proxy = Inr synced" "source = synced + 1"
        "source < MAX_SAFE"
      | (given) "relayContract this = None \<or> proxyContract this = None"
        "bigNumberFrom c (param_srcBlock parameters) = Inr source"
      by auto
    then show ?thesis
    proof cases
      case attached
      from attached(4,5) range(1) ahead have fits: "toNumber synced = Inr synced"
        by (simp add: toNumber_def)
      from attached fits
      have "synchronized_srcBlock c (param_srcBlock parameters) (this, log)
          = (Returned (Some (Num source)), this, log @ [Relay_getCurrentBlockNumber proxy])"
        by (simp add: synchronized_srcBlock_def bindA_def this_engine_def ret_def call_def awaitA_def)
      moreover from attached(5) range(1) ahead have "bigNumberFrom c (Some (Num source)) = Inr source"
        by (simp add: bigNumberFrom_def bigNumber_of_number_def)
      moreover have "list_all reads_block_number [Relay_getCurrentBlockNumber proxy]"
        by simp
      ultimately show ?thesis by blast
    next
      case given
      then have "synchronized_srcBlock c (param_srcBlock parameters) (this, log)
          = (Returned (param_srcBlock parameters), this, log @ [])"
        by (auto simp add: synchronized_srcBlock_def bindA_def this_engine_def ret_def
              split: option.splits)
      moreover have "list_all reads_block_number []"
        by simp
      ultimately show ?thesis using given(2) by blast
    qed
  qed
  then obtain calls1 fromBlock where
    s1: "synchronized_srcBlock c (param_srcBlock parameters) (this, log)
           = (Returned fromBlock, this, log @ calls1)" and
    s2: "bigNumberFrom c fromBlock = Inr source" and
    s3: "list_all reads_block_number calls1"
    by blast
  from range have other: "bigNumber_of_number target = Inr target"
    by (simp add: bigNumber_of_number_def)
  from given target s2 other ahead
  have e: "empty_when_ahead c fromBlock (param_targetBlock parameters) (this, log @ calls1)
             = (Returned (Some []), this, log @ calls1 @ [Src_toBlockNumber toBlock])"
    by (simp add: empty_when_ahead_def bindA_def call_def awaitA_def ret_def)
  from how init s1 e
  have "getDiff c how parameters (this, log)
          = (Returned (Some []), this, log @ (calls1 @ [Src_toBlockNumber toBlock]))"
    by (auto simp add: getDiff_def bindA_def this_engine_def ret_def)
  moreover from s3 have "list_all reads_block_number (calls1 @ [Src_toBlockNumber toBlock])"
    by simp
  ultimately show ?thesis by blast
qed

theorem getDiff_empty_when_ahead_in_range_witness:
  "(\<exists>calls. getDiff two_chains SrcTx \<lparr>param_srcBlock = None, param_targetBlock = Some (Num 10)\<rparr>
              (migrated_engine, []) = (Returned (Some []), migrated_engine, calls)
          \<and> list_all reads_block_number calls)
   \<and> (\<exists>calls. getDiff two_chains GetProof \<lparr>param_srcBlock = Some (Num 15), param_targetBlock = Some (Num 10)\<rparr>
              (fresh_engine, []) = (Returned (Some []), fresh_engine, calls)
          \<and> list_all reads_block_number calls)"
proof -
  let ?p1 = "\<lparr>param_srcBlock = None, param_targetBlock = Some (Num 10)\<rparr>"
  let ?p2 = "\<lparr>param_srcBlock = Some (Num 15), param_targetBlock = Some (Num 10)\<rparr>"
  have i1: "initialized migrated_engine"
    by (simp add: migrated_engine_def deployed_engine_def fresh_engine_def)
  have i2: "initialized fresh_engine"
    by (simp add: fresh_engine_def)
  have m1: "SrcTx = GetProof \<or> SrcTx = SrcTx" and m2: "GetProof = GetProof \<or> GetProof = SrcTx"
    by simp_all
  have g1: "param_targetBlock ?p1 = Some (Num 10)" and g2: "param_targetBlock ?p2 = Some (Num 10)"
    by simp_all
  have t: "truthy_block (Some (Num 10))"
    by (simp add: truthy_block_def)
  have r: "src_toBlockNumber two_chains (Num 10) = Inr 10"
    by (simp add: two_chains_def)
  have lo: "- MAX_SAFE < 10" and hi: "10 < MAX_SAFE"
    by (simp_all add: MAX_SAFE_def)
  have s1: "(\<exists>relay proxy synced. relayContract migrated_engine = Some relay
              \<and> proxyContract migrated_engine = Some proxy
              \<and> relay_getCurrentBlockNumber two_chains relay proxy = Inr synced \<and> 13 = synced + 1
              \<and> 13 < MAX_SAFE)
         \<or> ((relayContract migrated_engine = None \<or> proxyContract migrated_engine = None)
            \<and> bigNumberFrom two_chains (param_srcBlock ?p1) = Inr 13)"
    by (simp add: migrated_engine_def deployed_engine_def two_chains_def MAX_SAFE_def)
  have s2: "(\<exists>relay proxy synced. relayContract fresh_engine = Some relay
              \<and> proxyContract fresh_engine = Some proxy
              \<and> relay_getCurrentBlockNumber two_chains relay proxy = Inr synced \<and> 15 = synced + 1
              \<and> 15 < MAX_SAFE)
         \<or> ((relayContract fresh_engine = None \<or> proxyContract fresh_engine = None)
            \<and> bigNumberFrom two_chains (param_srcBlock ?p2) = Inr 15)"
    by (simp add: fresh_engine_def bigNumberFrom_def bigNumber_of_number_def MAX_SAFE_def)
  have a1: "(10::int) < 13" and a2: "(10::int) < 15"
    by simp_all
  from getDiff_empty_when_ahead_in_range [OF i1 m1 g1 t r lo hi s1 a1, of "[]"]
       getDiff_empty_when_ahead_in_range [OF i2 m2 g2 t r lo hi s2 a2, of "[]"]
  show ?thesis by simp
qed

text \<open>
  Claim C10. When the engine is not initialized, or no relay contract is attached,
  \<^verbatim>\<open>getLatestBlockNumber\<close> and \<^verbatim>\<open>getCurrentBlockNumber\<close> raise nothing: both return -1, send
  no call and leave the engine, its cached \<open>srcBlock\<close> included, as it is. And whenever
  \<^verbatim>\<open>getCurrentBlockNumber\<close> changes \<open>srcBlock\<close>, the engine was initialized with a relay and
  a proxy attached, the relay has answered with a number, that number is returned, and
  \<open>srcBlock\<close> is the only field rewritten, to that number.
\<close>

theorem block_number_sentinel:
  "(\<not> initialized this \<or> relayContract this = None
      \<longrightarrow> getLatestBlockNumber c (this, log) = (Returned (- 1), this, log)
        \<and> getCurrentBlockNumber c (this, log) = (Returned (- 1), this, log))
   \<and> (\<forall>r this' log'. getCurrentBlockNumber c (this, log) = (r, this', log')
          \<and> srcBlock this' \<noteq> srcBlock this
        \<longrightarrow> (\<exists>relay proxy n. initialized this \<and> relayContract this = Some relay
              \<and> proxyContract this = Some proxy
              \<and> relay_getCurrentBlockNumber c relay proxy = Inr n
              \<and> r = Returned n \<and> this' = this\<lparr>srcBlock := Num n\<rparr>))"
  by (auto simp add: getLatestBlockNumber_def getCurrentBlockNumber_def bindA_def this_engine_def
        ret_def reject_def attached_def call_def assign_def awaitA_def toNumber_def await_Returned
      split: option.splits sum.splits prod.splits outcome.splits if_splits)

theorem block_number_sentinel_witness:
  "getLatestBlockNumber two_chains (uninitialized_engine, []) = (Returned (- 1), uninitialized_engine, [])
   \<and> getCurrentBlockNumber two_chains (uninitialized_engine, []) = (Returned (- 1), uninitialized_engine, [])
   \<and> getLatestBlockNumber two_chains (fresh_engine, []) = (Returned (- 1), fresh_engine, [])
   \<and> getCurrentBlockNumber two_chains (fresh_engine, []) = (Returned (- 1), fresh_engine, [])
   \<and> getCurrentBlockNumber two_chains (migrated_engine, [])
       = (Returned 12, migrated_engine\<lparr>srcBlock := Num 12\<rparr>, [Relay_getCurrentBlockNumber proxy_address])"
proof -
  have u: "\<not> initialized uninitialized_engine \<or> relayContract uninitialized_engine = None"
    by (simp add: uninitialized_engine_def)
  have f: "\<not> initialized fresh_engine \<or> relayContract fresh_engine = None"
    by (simp add: fresh_engine_def)
  have run: "getCurrentBlockNumber two_chains (migrated_engine, [])
       = (Returned 12, migrated_engine\<lparr>srcBlock := Num 12\<rparr>, [Relay_getCurrentBlockNumber proxy_address])"
    by (simp add: getCurrentBlockNumber_def bindA_def this_engine_def ret_def attached_def call_def
          assign_def awaitA_def toNumber_def MAX_SAFE_def migrated_engine_def deployed_engine_def
          fresh_engine_def two_chains_def)
  from block_number_sentinel [of uninitialized_engine two_chains "[]", THEN conjunct1, THEN mp, OF u]
       block_number_sentinel [of fresh_engine two_chains "[]", THEN conjunct1, THEN mp, OF f]
       run
  show ?thesis by blast
qed

section \<open>Properties of ProxyContract\<close>

lemma setStorage_loop_verified:
  "setStorage_loop L items storageHash storage = Inr storage' \<Longrightarrow>
     (\<forall>item\<in>set items. \<exists>sp. parseStorageProof L item = Some sp
         \<and> mpp_verify L (sp_value sp) (triePath L (sp_key sp)) (sp_proof sp) storageHash)
   \<and> (\<forall>slot. storage' slot \<noteq> storage slot \<longrightarrow>
         (\<exists>item\<in>set items. \<exists>sp. parseStorageProof L item = Some sp \<and> sp_key sp = slot
             \<and> mpp_verify L (sp_value sp) (triePath L (sp_key sp)) (sp_proof sp) storageHash))"
proof (induction items arbitrary: storage)
  case Nil
  then show ?case by simp
next
  case (Cons item items)
  from Cons.prems obtain sp v where
    sp: "parseStorageProof L item = Some sp" and
    ok: "mpp_verify L (sp_value sp) (triePath L (sp_key sp)) (sp_proof sp) storageHash" and
    v: "toUint L (sp_value sp) = Some v" and
    rest: "setStorage_loop L items storageHash (storage(sp_key sp := v)) = Inr storage'"
    by (auto simp add: Let_def split: option.splits if_splits)
  note IH = Cons.IH [OF rest]
  show ?case
  proof (intro conjI ballI allI impI)
    fix x assume "x \<in> set (item # items)"
    with sp ok IH show "\<exists>sp. parseStorageProof L x = Some sp
         \<and> mpp_verify L (sp_value sp) (triePath L (sp_key sp)) (sp_proof sp) storageHash"
      by auto
  next
    fix slot assume changed: "storage' slot \<noteq> storage slot"
    show "\<exists>x\<in>set (item # items). \<exists>sp. parseStorageProof L x = Some sp \<and> sp_key sp = slot
             \<and> mpp_verify L (sp_value sp) (triePath L (sp_key sp)) (sp_proof sp) storageHash"
    proof (cases "slot = sp_key sp")
      case True
      with sp ok show ?thesis by auto
    next
      case False
      with changed have "storage' slot \<noteq> (storage(sp_key sp := v)) slot" by simp
      with IH show ?thesis by auto
    qed
  qed
qed

lemma updateStorage_Succeeded:
  assumes "updateStorage L (storage, relay) proof blockHash = Succeeded storage' relay'"
  shows "account_verified L relay proof blockHash
       \<and> (\<forall>x\<in>set (storage_proofs_of L proof). \<exists>sp. x = Some sp \<and> storage_verified L proof sp)
       \<and> (\<forall>slot. storage' slot \<noteq> storage slot \<longrightarrow>
            (\<exists>sp. Some sp \<in> set (storage_proofs_of L proof) \<and> sp_key sp = slot
               \<and> storage_verified L proof sp))"
proof -
  from assms obtain getProof account items where
    gp: "parseProof L proof = Some getProof" and
    acc_ok: "verifyProof L (gp_account getProof) (gp_accountProof getProof)
               (encodedAddress L (getSource L relay)) (getStateRoot L relay blockHash)" and
    acc: "parseAccount L (gp_account getProof) = Some account" and
    items: "rlpList L (gp_storageProofs getProof) = Some items" and
    loop: "setStorage_loop L items (acc_storageHash account) storage = Inr storage'"
    by (auto simp add: updateStorage_def setStorage_def Let_def
          split: option.splits if_splits sum.splits)
  from gp acc_ok have "account_verified L relay proof blockHash"
    by (simp add: account_verified_def)
  moreover from gp items have proofs: "storage_proofs_of L proof = map (parseStorageProof L) items"
    by (simp add: storage_proofs_of_def)
  moreover from gp acc have verified: "\<And>sp. storage_verified L proof sp
      = mpp_verify L (sp_value sp) (triePath L (sp_key sp)) (sp_proof sp) (acc_storageHash account)"
    by (simp add: storage_verified_def)
  ultimately show ?thesis
    using setStorage_loop_verified [OF loop] by (auto simp add: image_iff) metis
qed

text \<open>
  Claim C6. \<^verbatim>\<open>updateStorage(proof, blockHash)\<close>: a slot of the proxy differs after the call
  only if the account proof of the payload verifies against the state root the relay
  stores for \<open>blockHash\<close> and the payload holds a storage proof for that slot which
  verifies against the \<open>storageHash\<close> of the account. If the account proof does not
  verify, or a storage proof of the payload does not parse or does not verify, the call
  reverts; and a call that reverts leaves the storage of the proxy and the relay as they
  were.
\<close>

theorem updateStorage_writes_only_verified:
  "(fst (world_after (storage, relay) (updateStorage L (storage, relay) proof blockHash)) slot
        \<noteq> storage slot
      \<longrightarrow> account_verified L relay proof blockHash
        \<and> (\<exists>sp. Some sp \<in> set (storage_proofs_of L proof) \<and> sp_key sp = slot
               \<and> storage_verified L proof sp))
   \<and> (\<not> account_verified L relay proof blockHash
        \<or> (\<exists>x\<in>set (storage_proofs_of L proof).
              case x of None \<Rightarrow> True | Some sp \<Rightarrow> \<not> storage_verified L proof sp)
      \<longrightarrow> is_reverted (updateStorage L (storage, relay) proof blockHash))
   \<and> (is_reverted (updateStorage L (storage, relay) proof blockHash)
      \<longrightarrow> world_after (storage, relay) (updateStorage L (storage, relay) proof blockHash)
            = (storage, relay))"
proof (cases "updateStorage L (storage, relay) proof blockHash")
  case (Reverted reason)
  then show ?thesis by (simp add: world_after_def)
next
  case (Succeeded storage' relay')
  from updateStorage_Succeeded [OF Succeeded] Succeeded show ?thesis
    by (auto simp add: world_after_def split: option.splits)
qed

theorem updateStorage_writes_only_verified_witness:
  "account_verified toy_libraries toy_relay [1, 99, 5] 20
   \<and> (\<exists>sp. Some sp \<in> set (storage_proofs_of toy_libraries [1, 99, 5]) \<and> sp_key sp = 5
          \<and> storage_verified toy_libraries [1, 99, 5] sp)
   \<and> is_reverted (updateStorage toy_libraries (\<lambda>k. 0, toy_relay) [1, 98, 5] 20)
   \<and> world_after (\<lambda>k. 0, toy_relay) (updateStorage toy_libraries (\<lambda>k. 0, toy_relay) [1, 98, 5] 20)
       = (\<lambda>k. 0, toy_relay)"
proof -
  have written:
    "fst (world_after (\<lambda>k. 0, toy_relay) (updateStorage toy_libraries (\<lambda>k. 0, toy_relay) [1, 99, 5] 20)) 5
       \<noteq> (\<lambda>k. 0) 5"
    by code_simp
  have refused: "\<not> account_verified toy_libraries toy_relay [1, 98, 5] 20"
    by code_simp
  note accepted = updateStorage_writes_only_verified
      [of "\<lambda>k. 0" toy_relay toy_libraries "[1, 99, 5]" 20 5, THEN conjunct1, THEN mp, OF written]
  note rejected = updateStorage_writes_only_verified [of "\<lambda>k. 0" toy_relay toy_libraries "[1, 98, 5]" 20 5]
  from rejected refused have reverted:
    "is_reverted (updateStorage toy_libraries (\<lambda>k. 0, toy_relay) [1, 98, 5] 20)"
    by blast
  with rejected have "world_after (\<lambda>k. 0, toy_relay)
      (updateStorage toy_libraries (\<lambda>k. 0, toy_relay) [1, 98, 5] 20) = (\<lambda>k. 0, toy_relay)"
    by blast
  with accepted reverted show ?thesis by blast
qed

end
